theory Spec2Isabelle
  imports Main
begin

section \<open>Strings\<close>

text \<open>
  A JavaScript string is modelled as a \<^typ>\<open>string\<close>, one \<^typ>\<open>char\<close> per code unit
  (code units below 256). \<open>String.prototype.trim\<close> removes white space and line
  terminators at both ends; in this range these are TAB, LF, VT, FF, CR, SPACE and
  NO-BREAK SPACE.
\<close>

abbreviation DQUOTE :: char where
  "DQUOTE \<equiv> CHR 0x22"

abbreviation COMMA :: char where
  "COMMA \<equiv> CHR 0x2C"

definition is_ws :: "char \<Rightarrow> bool" where
  "is_ws c \<longleftrightarrow> c \<in> {CHR 0x09, CHR 0x0A, CHR 0x0B, CHR 0x0C, CHR 0x0D, CHR 0x20, CHR 0xA0}"

definition trim :: "string \<Rightarrow> string" where
  "trim s = rev (dropWhile is_ws (rev (dropWhile is_ws s)))"


section \<open>The delimited-record parser: \<open>parseCSVLine\<close>\<close>

text \<open>
  The route handler and the import script each carry a copy of \<open>parseCSVLine\<close>. The
  loops are the same; the handler pushes \<open>current.trim()\<close>, the script pushes
  \<open>current\<close>. \<open>csv_loop\<close> is that loop, run on the characters from index \<open>i\<close> on,
  with the source's variables \<open>inQuotes\<close>, \<open>current\<close> and \<open>result\<close> as arguments and
  the function applied to a finished field as parameter \<open>fin\<close>. Reading
  \<open>line[i + 1]\<close> past the end gives \<open>undefined\<close> in JavaScript, which is not a quote.
\<close>

fun csv_loop :: "(string \<Rightarrow> string) \<Rightarrow> string \<Rightarrow> bool \<Rightarrow> string \<Rightarrow> string list \<Rightarrow> string list" where
  "csv_loop fin [] inQuotes current result = result @ [fin current]"
| "csv_loop fin (c # cs) inQuotes current result =
     (if c = DQUOTE then
        (case cs of
           [] \<Rightarrow> csv_loop fin cs (\<not> inQuotes) current result
         | c' # cs' \<Rightarrow>
             if inQuotes \<and> c' = DQUOTE then csv_loop fin cs' inQuotes (current @ [DQUOTE]) result
             else csv_loop fin cs (\<not> inQuotes) current result)
      else if c = COMMA \<and> \<not> inQuotes then csv_loop fin cs inQuotes [] (result @ [fin current])
      else csv_loop fin cs inQuotes (current @ [c]) result)"

text \<open>
  The same loop stopped where the characters end: the values of \<open>inQuotes\<close>, \<open>current\<close> and
  \<open>result\<close> that the statement after the loop finds. \<open>inQuotes\<close> is true there exactly when
  the line ends inside a quoted section, that is, after an opening quote without its match.
\<close>

fun csv_scan ::
  "(string \<Rightarrow> string) \<Rightarrow> string \<Rightarrow> bool \<Rightarrow> string \<Rightarrow> string list \<Rightarrow> bool \<times> string \<times> string list" where
  "csv_scan fin [] inQuotes current result = (inQuotes, current, result)"
| "csv_scan fin (c # cs) inQuotes current result =
     (if c = DQUOTE then
        (case cs of
           [] \<Rightarrow> csv_scan fin cs (\<not> inQuotes) current result
         | c' # cs' \<Rightarrow>
             if inQuotes \<and> c' = DQUOTE then csv_scan fin cs' inQuotes (current @ [DQUOTE]) result
             else csv_scan fin cs (\<not> inQuotes) current result)
      else if c = COMMA \<and> \<not> inQuotes then csv_scan fin cs inQuotes [] (result @ [fin current])
      else csv_scan fin cs inQuotes (current @ [c]) result)"

definition parseCSVLine :: "string \<Rightarrow> string list" where
  "parseCSVLine line = csv_loop trim line False [] []"

definition parseCSVLine_script :: "string \<Rightarrow> string list" where
  "parseCSVLine_script line = csv_loop (\<lambda>s. s) line False [] []"


section \<open>JavaScript values and string operations used by the mapper\<close>

text \<open>
  The values that \<open>mapRowToSchema\<close> stores in a mapped row: the cell text, the number or
  \<open>null\<close> of the birth-year conversion, the boolean of the absentee flag, and
  \<open>JInherited k\<close>: the value that a plain object yields under a key \<open>k\<close> that it does not own
  but inherits from \<open>Object.prototype\<close>, which is a built-in function or, for \<open>__proto__\<close>, the
  prototype object itself.

  The exceptions of the mapper are \<open>TypeError\<close>s; \<open>js_error\<close> names the operation that threw:
  \<open>Object.entries\<close> on \<open>null\<close>, the call of a method that the value does not have, an
  assignment that cannot be made. The route file is an ECMAScript module, whose code is
  strict: there such an assignment throws.
\<close>

datatype jsvalue = JString string | JNumber int | JBoolean bool | JNull | JInherited string

datatype js_error = Entries_of_null | Not_a_function | Cannot_assign

abbreviation LF :: char where
  "LF \<equiv> CHR 0x0A"

abbreviation SPACE :: char where
  "SPACE \<equiv> CHR 0x20"

abbreviation SLASH :: char where
  "SLASH \<equiv> CHR 0x2F"

text \<open>\<open>s.split(d)\<close> for a one-character separator; the result always has at least one part.\<close>

fun split_on :: "char \<Rightarrow> string \<Rightarrow> string list" where
  "split_on d [] = [[]]"
| "split_on d (c # cs) =
     (if c = d then [] # split_on d cs
      else (case split_on d cs of [] \<Rightarrow> [[c]] | x # xs \<Rightarrow> (c # x) # xs))"

text \<open>\<open>s.padStart(2, '0')\<close>.\<close>

definition padStart2 :: "string \<Rightarrow> string" where
  "padStart2 s = replicate (2 - length s) (CHR ''0'') @ s"

definition is_digit :: "char \<Rightarrow> bool" where
  "is_digit c \<longleftrightarrow> 48 \<le> (of_char c :: nat) \<and> (of_char c :: nat) \<le> 57"

definition digits_value :: "string \<Rightarrow> int" where
  "digits_value ds = foldl (\<lambda>n c. 10 * n + (int (of_char c) - 48)) 0 ds"

text \<open>
  \<open>parseInt(value, 10)\<close>: leading white space is skipped, one sign is read, then the longest
  run of decimal digits; \<open>None\<close> stands for \<open>NaN\<close> (no digit read). The number is kept as
  an integer (JavaScript rounds it to a double beyond 2^53).
\<close>

definition parseInt :: "string \<Rightarrow> int option" where
  "parseInt v =
     (let s = dropWhile is_ws v;
          neg = (s \<noteq> [] \<and> hd s = CHR ''-'');
          s' = (if s \<noteq> [] \<and> (hd s = CHR ''-'' \<or> hd s = CHR ''+'') then tl s else s);
          ds = takeWhile is_digit s'
      in if ds = [] then None else Some (if neg then - digits_value ds else digits_value ds))"

text \<open>
  The own properties of a plain object, kept as the list of its entries: on assignment an
  existing key keeps its place, a new key goes last.
\<close>

fun obj_set :: "string \<Rightarrow> 'v \<Rightarrow> (string \<times> 'v) list \<Rightarrow> (string \<times> 'v) list" where
  "obj_set k v [] = [(k, v)]"
| "obj_set k v ((k', v') # ps) = (if k = k' then (k, v) # ps else (k', v') # obj_set k v ps)"

text \<open>
  The property names of \<open>Object.prototype\<close>. An object made by \<open>{}\<close> finds them under
  \<open>obj[key]\<close> when it has no own property of that name.
\<close>

definition Object_prototype :: "string list" where
  "Object_prototype =
     [''constructor'', ''__defineGetter__'', ''__defineSetter__'', ''hasOwnProperty'',
      ''__lookupGetter__'', ''__lookupSetter__'', ''isPrototypeOf'', ''propertyIsEnumerable'',
      ''toString'', ''valueOf'', ''__proto__'', ''toLocaleString'']"


section \<open>The column mapper: \<open>mapRowToSchema\<close>\<close>

text \<open>
  A row object is the plain object that the upload handler builds: the finite map of its own
  properties, from header to cell text, on top of \<open>Object.prototype\<close>. \<open>row[sourceCol]\<close> is
  the own cell when there is one, else the inherited member when \<open>sourceCol\<close> names one, else
  \<open>undefined\<close> (\<open>None\<close>).

  The column mapping is what \<open>JSON.parse\<close> returned for the request field: \<open>Some entries\<close> is
  an object with its entries in \<open>Object.entries\<close> order, \<open>None\<close> is the JSON value \<open>null\<close>, on
  which \<open>Object.entries\<close> throws. The values of the mapping are strings, which is the
  parameter type \<open>Record<string, string>\<close> of the function.
\<close>

datatype property = Own string | Inherited string

definition get_property :: "(string \<rightharpoonup> string) \<Rightarrow> string \<Rightarrow> property option" where
  "get_property r k =
     (case r k of
        Some s \<Rightarrow> Some (Own s)
      | None \<Rightarrow> if k \<in> set Object_prototype then Some (Inherited k) else None)"

text \<open>
  \<open>type_conversion\<close> is the block under the comment \<open>Type conversions\<close>: what becomes of the
  value read for the target column \<open>targetCol\<close>. On a function or on \<open>Object.prototype\<close>,
  \<open>parseInt\<close> reads the text of the value, which starts with no digit, the comparisons with
  \<open>'Y'\<close>, \<open>'true'\<close> and \<open>'1'\<close> fail, and \<open>value.includes\<close> is \<open>undefined\<close>, so that calling it
  throws.
\<close>

definition type_conversion :: "string \<Rightarrow> property \<Rightarrow> js_error + jsvalue" where
  "type_conversion targetCol val =
     (if targetCol = ''dobYear'' then
        (case val of
           Own v \<Rightarrow>
             Inr (case parseInt v of None \<Rightarrow> JNull | Some n \<Rightarrow> if n = 0 then JNull else JNumber n)
         | Inherited k \<Rightarrow> Inr JNull)
      else if targetCol = ''permanentAbsentee'' then
        (case val of
           Own v \<Rightarrow> Inr (JBoolean (v = ''Y'' \<or> v = ''true'' \<or> v = ''1''))
         | Inherited k \<Rightarrow> Inr (JBoolean False))
      else if targetCol = ''registrationDate'' \<or> targetCol = ''electionDate'' then
        (case val of
           Own v \<Rightarrow>
             (if SLASH \<in> set v then
                (let parts = split_on SLASH v
                 in if length parts = 3
                    then Inr (JString (parts ! 2 @ ''-'' @ padStart2 (parts ! 0) @ ''-'' @ padStart2 (parts ! 1)))
                    else Inr (JString v))
              else if SPACE \<in> set v then Inr (JString (hd (split_on SPACE v)))
              else Inr (JString v))
         | Inherited k \<Rightarrow> Inl Not_a_function)
      else
        (case val of Own v \<Rightarrow> Inr (JString v) | Inherited k \<Rightarrow> Inr (JInherited k)))"

text \<open>The guard \<open>row[sourceCol] !== undefined && row[sourceCol] !== ''\<close>.\<close>

definition cell_present :: "(string \<rightharpoonup> string) \<Rightarrow> string \<Rightarrow> bool" where
  "cell_present r sourceCol \<longleftrightarrow>
     get_property r sourceCol \<noteq> None \<and> get_property r sourceCol \<noteq> Some (Own [])"

text \<open>
  The object \<open>mapped\<close>: its own entries and its prototype, which is \<open>Object.prototype\<close> at
  first. \<open>mapped[targetCol] = value\<close> writes an own property, with these exceptions. While
  \<open>mapped\<close> owns no \<open>__proto__\<close> and has a prototype, the key \<open>__proto__\<close> reaches the setter
  of \<open>Object.prototype\<close>, which makes an object or function or \<open>null\<close> the new prototype and
  ignores any other value. Once the prototype is a built-in function, a key that \<open>mapped\<close>
  does not own cannot be assigned when the function or \<open>Function.prototype\<close> holds it
  read-only (\<open>name\<close>, \<open>length\<close>, and \<open>prototype\<close> of the constructor \<open>Object\<close>) or with a
  setter that throws (\<open>caller\<close>, \<open>arguments\<close>).
\<close>

datatype proto = Object_proto | Function_proto string | Null_proto

record mapped_object =
  own_entries :: "(string \<times> jsvalue) list"
  prototype :: proto

definition set_prototype :: "jsvalue \<Rightarrow> mapped_object \<Rightarrow> mapped_object" where
  "set_prototype v m =
     (case v of
        JInherited k \<Rightarrow> m\<lparr>prototype := (if k = ''__proto__'' then Object_proto else Function_proto k)\<rparr>
      | JNull \<Rightarrow> m\<lparr>prototype := Null_proto\<rparr>
      | _ \<Rightarrow> m)"

definition unassignable :: "string \<Rightarrow> string \<Rightarrow> bool" where
  "unassignable f k \<longleftrightarrow>
     k = ''name'' \<or> k = ''length'' \<or> k = ''caller'' \<or> k = ''arguments''
     \<or> (f = ''constructor'' \<and> k = ''prototype'')"

definition assign :: "string \<Rightarrow> jsvalue \<Rightarrow> mapped_object \<Rightarrow> js_error + mapped_object" where
  "assign k v m =
     (if map_of (own_entries m) k \<noteq> None then Inr (m\<lparr>own_entries := obj_set k v (own_entries m)\<rparr>)
      else
        (case prototype m of
           Null_proto \<Rightarrow> Inr (m\<lparr>own_entries := obj_set k v (own_entries m)\<rparr>)
         | Object_proto \<Rightarrow>
             if k = ''__proto__'' then Inr (set_prototype v m)
             else Inr (m\<lparr>own_entries := obj_set k v (own_entries m)\<rparr>)
         | Function_proto f \<Rightarrow>
             if k = ''__proto__'' then Inr (set_prototype v m)
             else if unassignable f k then Inl Cannot_assign
             else Inr (m\<lparr>own_entries := obj_set k v (own_entries m)\<rparr>)))"

text \<open>
  One round of the loop over the entries \<open>[sourceCol, targetCol]\<close> of the mapping; an
  exception ends the loop.
\<close>

definition map_entry ::
  "(string \<rightharpoonup> string) \<Rightarrow> string \<times> string \<Rightarrow> js_error + mapped_object \<Rightarrow> js_error + mapped_object" where
  "map_entry r e acc =
     (case acc of
        Inl err \<Rightarrow> Inl err
      | Inr mapped \<Rightarrow>
          (if cell_present r (fst e) then
             (case type_conversion (snd e) (the (get_property r (fst e))) of
                Inl err \<Rightarrow> Inl err
              | Inr v \<Rightarrow> assign (snd e) v mapped)
           else Inr mapped))"

text \<open>
  The result is \<open>mapped\<close> when it has an own key and \<open>null\<close> otherwise. Of a mapped row the
  model keeps the own entries: the batch writers spread them or read keys that no prototype
  above provides.
\<close>

definition mapRowToSchema ::
  "(string \<rightharpoonup> string) \<Rightarrow> (string \<times> string) list option \<Rightarrow> string
     \<Rightarrow> js_error + (string \<times> jsvalue) list option" where
  "mapRowToSchema r columnMapping importType =
     (case columnMapping of
        None \<Rightarrow> Inl Entries_of_null
      | Some entries \<Rightarrow>
          (case fold (map_entry r) entries (Inr \<lparr>own_entries = [], prototype = Object_proto\<rparr>) of
             Inl err \<Rightarrow> Inl err
           | Inr mapped \<Rightarrow> Inr (if own_entries mapped \<noteq> [] then Some (own_entries mapped) else None)))"


section \<open>The upload handler and the import job\<close>

text \<open>
  The handler of \<open>POST /upload\<close> keeps its working variables in the closure of the file
  callback; they are the fields of \<open>upload_state\<close>, together with the entry of the
  in-memory progress map for this job and the database. \<open>importType\<close> and \<open>columnMapping\<close>
  are the values that the fields of the request have set when the file part arrives. The
  \<open>error\<close> event of the stream, which marks the job as failed, is not part of the model: the
  statements below are about jobs that complete. The batch writer is the parameter \<open>ins\<close>:
  given the batch and the database it returns the error it threw, if any, and the database
  it left behind. An error of the database is kept as the fact that the statement failed:
  which error PostgreSQL reports when a statement has several faults, and in what words, is
  not modelled.

  An error descriptor holds \<open>err.message\<close>, a text of the JavaScript engine or of the
  database. It is kept here as the error that the text describes: \<open>Inl\<close> for an exception of
  the mapper, \<open>Inr\<close> for the error behind \<open>Batch insert failed: ...\<close>.
\<close>

datatype pg_error = Statement_failed

record import_error =
  err_row :: nat
  err_message :: "js_error + pg_error"

record import_job =
  job_status :: string
  job_totalRows :: nat
  job_processedRows :: nat
  job_successRows :: nat
  job_errorRows :: nat
  job_errors :: "import_error list"

type_synonym mapped_row = "(string \<times> jsvalue) list"

record 'db upload_state =
  buffer :: string
  headers :: "string list"
  batch :: "mapped_row list"
  processedRows :: nat
  successRows :: nat
  errorRows :: nat
  errors :: "import_error list"
  progress :: "(nat \<times> nat \<times> string) option"
  db :: 'db

definition BATCH_SIZE :: nat where
  "BATCH_SIZE = 1000"

text \<open>\<open>if (errors.length < 100) errors.push(e)\<close>.\<close>

definition push_error :: "import_error \<Rightarrow> import_error list \<Rightarrow> import_error list" where
  "push_error e es = (if length es < 100 then es @ [e] else es)"

text \<open>
  The own properties of the row object built by \<open>headers.reduce\<close> from \<open>{}\<close>: header \<open>i\<close>
  gets \<open>values[i] || ''\<close>, a later header of the same name overwrites an earlier one. For the
  header \<open>__proto__\<close> the assignment reaches the setter of \<open>Object.prototype\<close>, which ignores
  a string: the row gets no such property.
\<close>

definition row_put :: "string list \<Rightarrow> string \<times> nat \<Rightarrow> (string \<rightharpoonup> string) \<Rightarrow> (string \<rightharpoonup> string)" where
  "row_put vals p acc =
     (if fst p = ''__proto__'' then acc
      else acc(fst p \<mapsto> (if snd p < length vals then vals ! snd p else [])))"

definition build_row :: "string list \<Rightarrow> string list \<Rightarrow> (string \<rightharpoonup> string)" where
  "build_row hs vals = fold (row_put vals) (zip hs [0..<length hs]) Map.empty"

text \<open>The \<open>try\<close>/\<open>catch\<close> around \<open>mapRowToSchema\<close> in the \<open>data\<close> handler.\<close>

definition data_map_row ::
  "(string \<times> string) list option \<Rightarrow> string \<Rightarrow> (string \<rightharpoonup> string) \<Rightarrow> 'db upload_state \<Rightarrow> 'db upload_state" where
  "data_map_row columnMapping importType r st =
     (case mapRowToSchema r columnMapping importType of
        Inr (Some mappedRow) \<Rightarrow> st\<lparr>batch := batch st @ [mappedRow]\<rparr>
      | Inr None \<Rightarrow> st
      | Inl e \<Rightarrow>
          st\<lparr>errorRows := errorRows st + 1,
             errors := push_error \<lparr>err_row = processedRows st + 1, err_message = Inl e\<rparr>
                         (errors st)\<rparr>)"

text \<open>The block under \<open>Insert batch\<close> in the \<open>data\<close> handler.\<close>

definition data_insert_batch ::
  "(mapped_row list \<Rightarrow> 'db \<Rightarrow> pg_error option \<times> 'db) \<Rightarrow> 'db upload_state \<Rightarrow> 'db upload_state" where
  "data_insert_batch ins st =
     (if BATCH_SIZE \<le> length (batch st) then
        (case ins (batch st) (db st) of
           (None, db') \<Rightarrow>
             st\<lparr>successRows := successRows st + length (batch st),
                batch := [],
                progress := Some (processedRows st, processedRows st, ''processing''),
                db := db'\<rparr>
         | (Some msg, db') \<Rightarrow>
             st\<lparr>errorRows := errorRows st + length (batch st),
                errors := push_error
                            \<lparr>err_row = processedRows st, err_message = Inr msg\<rparr>
                            (errors st),
                batch := [],
                progress := Some (processedRows st, processedRows st, ''processing''),
                db := db'\<rparr>)
      else st)"

text \<open>The body of \<open>for (const line of lines)\<close>.\<close>

definition process_line ::
  "(mapped_row list \<Rightarrow> 'db \<Rightarrow> pg_error option \<times> 'db) \<Rightarrow> (string \<times> string) list option \<Rightarrow> string
     \<Rightarrow> string \<Rightarrow> 'db upload_state \<Rightarrow> 'db upload_state" where
  "process_line ins columnMapping importType line st =
     (if trim line = [] then st
      else if headers st = [] then st\<lparr>headers := parseCSVLine line\<rparr>
      else
        (let vals = parseCSVLine line;
             r = build_row (headers st) vals;
             st1 = data_map_row columnMapping importType r st;
             st2 = st1\<lparr>processedRows := processedRows st1 + 1\<rparr>
         in data_insert_batch ins st2))"

text \<open>The \<open>data\<close> handler: the last piece of the split stays in the buffer.\<close>

definition on_data ::
  "(mapped_row list \<Rightarrow> 'db \<Rightarrow> pg_error option \<times> 'db) \<Rightarrow> (string \<times> string) list option \<Rightarrow> string
     \<Rightarrow> string \<Rightarrow> 'db upload_state \<Rightarrow> 'db upload_state" where
  "on_data ins columnMapping importType chunk st =
     (let lines = split_on LF (buffer st @ chunk)
      in fold (process_line ins columnMapping importType) (butlast lines) (st\<lparr>buffer := last lines\<rparr>))"

text \<open>The \<open>end\<close> handler, in its three steps: the remaining buffer, the final batch, the job.\<close>

definition end_remaining_buffer ::
  "(string \<times> string) list option \<Rightarrow> string \<Rightarrow> 'db upload_state \<Rightarrow> 'db upload_state" where
  "end_remaining_buffer columnMapping importType st =
     (if trim (buffer st) \<noteq> [] \<and> headers st \<noteq> [] then
        (let vals = parseCSVLine (buffer st);
             r = build_row (headers st) vals;
             st1 = (case mapRowToSchema r columnMapping importType of
                      Inr (Some mappedRow) \<Rightarrow> st\<lparr>batch := batch st @ [mappedRow]\<rparr>
                    | Inr None \<Rightarrow> st
                    | Inl e \<Rightarrow> st\<lparr>errorRows := errorRows st + 1\<rparr>)
         in st1\<lparr>processedRows := processedRows st1 + 1\<rparr>)
      else st)"

definition end_final_batch ::
  "(mapped_row list \<Rightarrow> 'db \<Rightarrow> pg_error option \<times> 'db) \<Rightarrow> 'db upload_state \<Rightarrow> 'db upload_state" where
  "end_final_batch ins st =
     (if batch st \<noteq> [] then
        (case ins (batch st) (db st) of
           (None, db') \<Rightarrow> st\<lparr>successRows := successRows st + length (batch st), db := db'\<rparr>
         | (Some msg, db') \<Rightarrow> st\<lparr>errorRows := errorRows st + length (batch st), db := db'\<rparr>)
      else st)"

definition completed_job :: "'db upload_state \<Rightarrow> import_job" where
  "completed_job st =
     \<lparr>job_status = ''completed'',
      job_totalRows = processedRows st,
      job_processedRows = processedRows st,
      job_successRows = successRows st,
      job_errorRows = errorRows st,
      job_errors = errors st\<rparr>"

definition on_end ::
  "(mapped_row list \<Rightarrow> 'db \<Rightarrow> pg_error option \<times> 'db) \<Rightarrow> (string \<times> string) list option \<Rightarrow> string
     \<Rightarrow> 'db upload_state \<Rightarrow> import_job \<times> 'db upload_state" where
  "on_end ins columnMapping importType st =
     (let st1 = end_remaining_buffer columnMapping importType st;
          st2 = end_final_batch ins st1
      in (completed_job st2, st2\<lparr>progress := None\<rparr>))"

definition initial_state :: "'db \<Rightarrow> 'db upload_state" where
  "initial_state d =
     \<lparr>buffer = [], headers = [], batch = [], processedRows = 0, successRows = 0, errorRows = 0,
      errors = [], progress = Some (0, 0, ''processing''), db = d\<rparr>"

text \<open>
  Whether the \<open>data\<close> handler reaches \<open>await insertVoterBatch(...)\<close> or
  \<open>await insertElectionBatch(...)\<close>: on one line, on one of several lines, on a chunk.
\<close>

definition line_awaits ::
  "(string \<times> string) list option \<Rightarrow> string \<Rightarrow> string \<Rightarrow> 'db upload_state \<Rightarrow> bool" where
  "line_awaits columnMapping importType line st \<longleftrightarrow>
     trim line \<noteq> [] \<and> headers st \<noteq> [] \<and>
     BATCH_SIZE \<le> length (batch (data_map_row columnMapping importType
                                    (build_row (headers st) (parseCSVLine line)) st))"

fun lines_await ::
  "(mapped_row list \<Rightarrow> 'db \<Rightarrow> pg_error option \<times> 'db) \<Rightarrow> (string \<times> string) list option \<Rightarrow> string
     \<Rightarrow> string list \<Rightarrow> 'db upload_state \<Rightarrow> bool" where
  "lines_await ins columnMapping importType [] st = False"
| "lines_await ins columnMapping importType (l # ls) st =
     (line_awaits columnMapping importType l st
      \<or> lines_await ins columnMapping importType ls (process_line ins columnMapping importType l st))"

definition data_awaits ::
  "(mapped_row list \<Rightarrow> 'db \<Rightarrow> pg_error option \<times> 'db) \<Rightarrow> (string \<times> string) list option \<Rightarrow> string
     \<Rightarrow> string \<Rightarrow> 'db upload_state \<Rightarrow> bool" where
  "data_awaits ins columnMapping importType chunk st =
     (let lines = split_on LF (buffer st @ chunk)
      in lines_await ins columnMapping importType (butlast lines) (st\<lparr>buffer := last lines\<rparr>))"

text \<open>
  One upload whose file arrives as the chunks \<open>chunks\<close>. A stream emits no empty chunk, so
  the \<open>data\<close> events are the non-empty ones.

  Both handlers are \<open>async\<close>. Before the \<open>data\<close> handler awaits a batch insert it pauses the
  stream, so the next \<open>data\<close> event comes only after the handler has finished. Nothing
  makes the \<open>end\<close> event wait: once the last chunk has been handed to the \<open>data\<close> handler
  the stream is at its end, and when that handler awaits an insert the \<open>end\<close> handler can
  start while the insert is pending. It then finds the counters and the batch as they are in
  the middle of the \<open>data\<close> handler's work, writes the same batch once more, and what it
  persists depends on which of the two inserts settles first. The model does not follow
  this interleaving: for such an upload \<open>upload_job\<close> is \<open>None\<close>. For every other upload
  the handlers run one after the other, and \<open>upload_job\<close> is the job that the \<open>end\<close> handler
  persists together with the database it leaves.
\<close>

definition data_events :: "string list \<Rightarrow> string list" where
  "data_events chunks = filter (\<lambda>chunk. chunk \<noteq> []) chunks"

definition end_overlaps ::
  "(mapped_row list \<Rightarrow> 'db \<Rightarrow> pg_error option \<times> 'db) \<Rightarrow> (string \<times> string) list option \<Rightarrow> string
     \<Rightarrow> string list \<Rightarrow> 'db \<Rightarrow> bool" where
  "end_overlaps ins columnMapping importType chunks d \<longleftrightarrow>
     data_events chunks \<noteq> [] \<and>
     data_awaits ins columnMapping importType (last (data_events chunks))
       (fold (on_data ins columnMapping importType) (butlast (data_events chunks)) (initial_state d))"

definition upload_job ::
  "(mapped_row list \<Rightarrow> 'db \<Rightarrow> pg_error option \<times> 'db) \<Rightarrow> (string \<times> string) list option \<Rightarrow> string
     \<Rightarrow> string list \<Rightarrow> 'db \<Rightarrow> (import_job \<times> 'db) option" where
  "upload_job ins columnMapping importType chunks d =
     (if end_overlaps ins columnMapping importType chunks d then None
      else
        (let r = on_end ins columnMapping importType
                   (fold (on_data ins columnMapping importType) (data_events chunks) (initial_state d))
         in Some (fst r, db (snd r))))"

text \<open>
  The data rows of a file, read off its text: the lines but the last are split at LF, blank
  lines are dropped, the first line left is the header, every further one is a row; the
  text after the last LF is one more row when it is not blank and a header was seen.
\<close>

fun observe :: "string list \<Rightarrow> string list \<Rightarrow> string list \<times> (string \<rightharpoonup> string) list" where
  "observe hs [] = (hs, [])"
| "observe hs (l # ls) =
     (if trim l = [] then observe hs ls
      else if hs = [] then observe (parseCSVLine l) ls
      else (fst (observe hs ls), build_row hs (parseCSVLine l) # snd (observe hs ls)))"

definition file_rows :: "string \<Rightarrow> (string \<rightharpoonup> string) list" where
  "file_rows content =
     (let ls = split_on LF content;
          hs = fst (observe [] (butlast ls));
          rs = snd (observe [] (butlast ls))
      in rs @ (if trim (last ls) \<noteq> [] \<and> hs \<noteq> []
               then [build_row hs (parseCSVLine (last ls))] else []))"


section \<open>The store\<close>

text \<open>
  The tables of \<open>shared/schema.ts\<close> that the import and the list routes touch, each as the
  list of its rows in insertion order. A \<open>serial\<close> primary key takes the next value of the
  table's sequence. Of the voter columns the model keeps the keys and the columns that the
  filter criteria read; time stamps are left out. The text of a \<open>date\<close> column is kept as
  it was sent: how PostgreSQL reads a date is not modelled.

  A text stored in a column of type \<open>varchar(n)\<close>: PostgreSQL refuses a value of more than
  \<open>n\<close> characters (\<open>None\<close>: the statement throws), unless all characters beyond the first \<open>n\<close>
  are spaces, which it cuts off. \<open>undefined\<close> is no value for the column and is never
  refused.
\<close>

definition varchar :: "nat \<Rightarrow> string \<Rightarrow> string option" where
  "varchar n s =
     (if length s \<le> n then Some s
      else if list_all (\<lambda>c. c = SPACE) (drop n s) then Some (take n s)
      else None)"

definition varchar_opt :: "nat \<Rightarrow> string option \<Rightarrow> string option option" where
  "varchar_opt n v = (case v of None \<Rightarrow> Some None | Some s \<Rightarrow> map_option Some (varchar n s))"

record voter =
  voter_id :: nat
  voter_organizationId :: nat
  stateVoterId :: "string option"
  firstName :: "string option"
  lastName :: "string option"
  congressionalDistrict :: "string option"
  legislativeDistrict :: "string option"
  stateSenateDistrict :: "string option"
  countyCode :: "string option"
  city :: "string option"
  zipCode :: "string option"
  supportLevel :: "int option"
  phone :: "string option"
  email :: "string option"

record election =
  election_id :: nat
  election_voterId :: nat
  election_organizationId :: nat
  electionDate :: string
  electionDescription :: "string option"
  electionType :: "string option"
  votingMethod :: "string option"

record ListFilterCriteria =
  c_congressionalDistrict :: "string list option"
  c_legislativeDistrict :: "string list option"
  c_stateSenateDistrict :: "string list option"
  c_county :: "string list option"
  c_city :: "string list option"
  c_zipCode :: "string list option"
  c_supportLevel :: "int list option"
  c_hasPhone :: bool
  c_hasEmail :: bool

record voter_list =
  list_id :: nat
  list_organizationId :: nat
  filterCriteria :: "ListFilterCriteria option"

record list_member =
  member_listId :: nat
  member_voterId :: nat
  addedBy :: nat

record database =
  voters :: "voter list"
  voters_seq :: nat
  electionHistory :: "election list"
  electionHistory_seq :: nat
  voterLists :: "voter_list list"
  voterListMembers :: "list_member list"

text \<open>
  The unique indexes that \<open>shared/schema.ts\<close> declares, by column names. For \<open>voters\<close> and
  for \<open>election_history\<close> this is the primary key alone: every index of the two tables is
  declared with \<open>index(...)\<close>, none with \<open>uniqueIndex(...)\<close>. \<open>voter_list_members\<close> has
  \<open>uniqueIndex('list_voter_idx')\<close> on the list and the voter.
\<close>

definition voters_unique_indexes :: "string list list" where
  "voters_unique_indexes = [[''id'']]"

definition electionHistory_unique_indexes :: "string list list" where
  "electionHistory_unique_indexes = [[''id'']]"

definition voterListMembers_unique_indexes :: "string list list" where
  "voterListMembers_unique_indexes = [[''id''], [''listId'', ''voterId'']]"

text \<open>The value of a column of an election-history row, for the comparison on a unique index.\<close>

definition election_column :: "election \<Rightarrow> string \<Rightarrow> jsvalue" where
  "election_column e col =
     (if col = ''id'' then JNumber (int (election_id e))
      else if col = ''voterId'' then JNumber (int (election_voterId e))
      else if col = ''organizationId'' then JNumber (int (election_organizationId e))
      else if col = ''electionDate'' then JString (electionDate e)
      else if col = ''electionDescription'' then (case electionDescription e of None \<Rightarrow> JNull | Some s \<Rightarrow> JString s)
      else if col = ''electionType'' then (case electionType e of None \<Rightarrow> JNull | Some s \<Rightarrow> JString s)
      else if col = ''votingMethod'' then (case votingMethod e of None \<Rightarrow> JNull | Some s \<Rightarrow> JString s)
      else JNull)"

text \<open>
  Two rows conflict on a unique index when they agree on all its columns and none of these
  is \<open>NULL\<close>.
\<close>

definition election_conflict :: "election \<Rightarrow> election \<Rightarrow> bool" where
  "election_conflict old new \<longleftrightarrow>
     list_ex (\<lambda>cols. list_all (\<lambda>col. election_column old col = election_column new col
                                       \<and> election_column new col \<noteq> JNull) cols)
       electionHistory_unique_indexes"

text \<open>\<open>obj[key]\<close>; \<open>None\<close> is \<open>undefined\<close>.\<close>

definition obj_get :: "string \<Rightarrow> (string \<times> 'v) list \<Rightarrow> 'v option" where
  "obj_get k obj = map_of obj k"

text \<open>Truthiness of a value read from a mapped row.\<close>

definition truthy :: "jsvalue option \<Rightarrow> bool" where
  "truthy v =
     (case v of
        None \<Rightarrow> False
      | Some (JString s) \<Rightarrow> s \<noteq> []
      | Some (JNumber n) \<Rightarrow> n \<noteq> 0
      | Some (JBoolean b) \<Rightarrow> b
      | Some JNull \<Rightarrow> False
      | Some (JInherited k) \<Rightarrow> True)"

text \<open>
  A value of a mapped row as the text of a \<open>varchar\<close> or \<open>date\<close> parameter. Under the keys
  read below \<open>mapRowToSchema\<close> stores strings and inherited members only; the driver sends
  the latter as the text that string concatenation gives them. \<open>undefined\<close> and \<open>null\<close> give
  \<open>NULL\<close>.
\<close>

definition inherited_text :: "string \<Rightarrow> string" where
  "inherited_text k =
     (if k = ''__proto__'' then ''[object Object]''
      else ''function '' @ (if k = ''constructor'' then ''Object'' else k) @ ''() { [native code] }'')"

definition column_text :: "jsvalue option \<Rightarrow> string option" where
  "column_text v =
     (case v of
        Some (JString s) \<Rightarrow> Some s
      | Some (JInherited k) \<Rightarrow> Some (inherited_text k)
      | _ \<Rightarrow> None)"


section \<open>The batch writers of the upload route\<close>

text \<open>
  \<open>db.insert(schema.electionHistory).values(...).onConflictDoNothing()\<close>: without an
  election date the \<open>NOT NULL\<close> column rejects the row, and a text that is too long for its
  \<open>varchar\<close> column is rejected: the statement throws. Otherwise the row takes the next
  \<open>id\<close>, and a row that conflicts with a stored row on a unique index is dropped silently.
\<close>

definition insert_electionHistory ::
  "nat \<Rightarrow> nat \<Rightarrow> mapped_row \<Rightarrow> database \<Rightarrow> pg_error + database" where
  "insert_electionHistory voterId organizationId record d =
     (case column_text (obj_get ''electionDate'' record) of
        None \<Rightarrow> Inl Statement_failed
      | Some date \<Rightarrow>
          (case varchar_opt 255 (column_text (obj_get ''electionDescription'' record)) of
             None \<Rightarrow> Inl Statement_failed
           | Some c_electionDescription \<Rightarrow>
          (case varchar_opt 50 (column_text (obj_get ''electionType'' record)) of
             None \<Rightarrow> Inl Statement_failed
           | Some c_electionType \<Rightarrow>
          (case varchar_opt 20 (column_text (obj_get ''votingMethod'' record)) of
             None \<Rightarrow> Inl Statement_failed
           | Some c_votingMethod \<Rightarrow>
          (let new = \<lparr>election_id = electionHistory_seq d + 1,
                      election_voterId = voterId,
                      election_organizationId = organizationId,
                      electionDate = date,
                      electionDescription = c_electionDescription,
                      electionType = c_electionType,
                      votingMethod = c_votingMethod\<rparr>;
               d' = d\<lparr>electionHistory_seq := electionHistory_seq d + 1\<rparr>
           in if list_ex (\<lambda>old. election_conflict old new) (electionHistory d) then Inr d'
              else Inr (d'\<lparr>electionHistory := electionHistory d @ [new]\<rparr>))))))"

text \<open>
  \<open>insertElectionBatch\<close>: for each record with a truthy \<open>stateVoterId\<close> the voter of this
  organization with that identifier is looked up and, when there is one, the history row is
  inserted. The first statement that throws ends the loop; what was written stays.
\<close>

fun insertElectionBatch :: "mapped_row list \<Rightarrow> nat \<Rightarrow> database \<Rightarrow> pg_error option \<times> database" where
  "insertElectionBatch [] organizationId d = (None, d)"
| "insertElectionBatch (record # rest) organizationId d =
     (if truthy (obj_get ''stateVoterId'' record) then
        (case find (\<lambda>v. voter_organizationId v = organizationId
                         \<and> stateVoterId v \<noteq> None
                         \<and> stateVoterId v = column_text (obj_get ''stateVoterId'' record))
                (voters d) of
           None \<Rightarrow> insertElectionBatch rest organizationId d
         | Some voter \<Rightarrow>
             (case insert_electionHistory (voter_id voter) organizationId record d of
                Inl msg \<Rightarrow> (Some msg, d)
              | Inr d' \<Rightarrow> insertElectionBatch rest organizationId d'))
      else insertElectionBatch rest organizationId d)"

text \<open>
  \<open>insertVoterBatch\<close> sends one \<open>INSERT ... ON CONFLICT (organization_id, state_voter_id)
  DO UPDATE\<close>. PostgreSQL accepts a conflict target only when a unique index or constraint
  on exactly these columns exists, and rejects the statement otherwise (\<open>there is no unique
  or exclusion constraint matching the ON CONFLICT specification\<close>). With such an index
  a row whose organization and identifier are stored already leaves the stored row as it is
  (the \<open>set\<close> clause assigns \<open>first_name\<close> and \<open>last_name\<close> to themselves), any other row is
  inserted, and two rows of one statement on the same key make the statement fail.
\<close>

definition voter_of_mapped :: "nat \<Rightarrow> nat \<Rightarrow> mapped_row \<Rightarrow> voter" where
  "voter_of_mapped new_id organizationId v =
     \<lparr>voter_id = new_id,
      voter_organizationId = organizationId,
      stateVoterId = column_text (obj_get ''stateVoterId'' v),
      firstName = column_text (obj_get ''firstName'' v),
      lastName = column_text (obj_get ''lastName'' v),
      congressionalDistrict = column_text (obj_get ''congressionalDistrict'' v),
      legislativeDistrict = column_text (obj_get ''legislativeDistrict'' v),
      stateSenateDistrict = column_text (obj_get ''stateSenateDistrict'' v),
      countyCode = column_text (obj_get ''countyCode'' v),
      city = column_text (obj_get ''city'' v),
      zipCode = column_text (obj_get ''zipCode'' v),
      supportLevel = (case obj_get ''supportLevel'' v of Some (JString s) \<Rightarrow> parseInt s | _ \<Rightarrow> None),
      phone = column_text (obj_get ''phone'' v),
      email = column_text (obj_get ''email'' v)\<rparr>"

fun upsert_voters :: "mapped_row list \<Rightarrow> nat \<Rightarrow> database \<Rightarrow> database" where
  "upsert_voters [] organizationId d = d"
| "upsert_voters (v # rest) organizationId d =
     (let new = voter_of_mapped (voters_seq d + 1) organizationId v;
          d' = d\<lparr>voters_seq := voters_seq d + 1\<rparr>
      in if stateVoterId new \<noteq> None
            \<and> list_ex (\<lambda>old. voter_organizationId old = organizationId
                              \<and> stateVoterId old = stateVoterId new) (voters d)
         then upsert_voters rest organizationId d'
         else upsert_voters rest organizationId (d'\<lparr>voters := voters d @ [new]\<rparr>))"

definition insertVoterBatch :: "mapped_row list \<Rightarrow> nat \<Rightarrow> database \<Rightarrow> pg_error option \<times> database" where
  "insertVoterBatch rows organizationId d =
     (if [''organizationId'', ''stateVoterId''] \<notin> set voters_unique_indexes then
        (Some Statement_failed, d)
      else if \<not> distinct (filter (\<lambda>k. k \<noteq> None) (map (\<lambda>v. column_text (obj_get ''stateVoterId'' v)) rows)) then
        (Some Statement_failed, d)
      else (None, upsert_voters rows organizationId d))"

text \<open>The choice of the writer by \<open>importType\<close>, as both handlers make it.\<close>

definition insert_batch :: "string \<Rightarrow> nat \<Rightarrow> mapped_row list \<Rightarrow> database \<Rightarrow> pg_error option \<times> database" where
  "insert_batch importType organizationId rows d =
     (if importType = ''voters'' then insertVoterBatch rows organizationId d
      else insertElectionBatch rows organizationId d)"

text \<open>
  The route \<open>POST /upload\<close> for one request: the job it leaves in \<open>import_jobs\<close> and the
  database afterwards.
\<close>

definition upload ::
  "nat \<Rightarrow> string \<Rightarrow> (string \<times> string) list option \<Rightarrow> string list \<Rightarrow> database
     \<Rightarrow> (import_job \<times> database) option" where
  "upload organizationId importType columnMapping chunks d =
     upload_job (insert_batch importType organizationId) columnMapping importType chunks d"

definition empty_database :: database where
  "empty_database =
     \<lparr>voters = [], voters_seq = 0, electionHistory = [], electionHistory_seq = 0,
      voterLists = [], voterListMembers = []\<rparr>"


section \<open>The list route: \<open>POST /:id/populate\<close>\<close>

text \<open>
  \<open>criteria.field?.length\<close> is truthy for an array with at least one element.
  \<open>inArray(column, values)\<close> is SQL \<open>IN\<close>: a \<open>NULL\<close> column is in no list. The two \<open>sql\<close>
  fragments test \<open>IS NOT NULL AND != ''\<close>.
\<close>

definition has_items :: "'a list option \<Rightarrow> bool" where
  "has_items xs = (case xs of None \<Rightarrow> False | Some l \<Rightarrow> l \<noteq> [])"

definition inArray :: "'a option \<Rightarrow> 'a list option \<Rightarrow> bool" where
  "inArray col xs = (case col of None \<Rightarrow> False | Some x \<Rightarrow> x \<in> set (the xs))"

definition not_blank :: "string option \<Rightarrow> bool" where
  "not_blank col \<longleftrightarrow> col \<noteq> None \<and> col \<noteq> Some []"

text \<open>The array \<open>conditions\<close> that the route builds; \<open>and(...conditions)\<close> is their conjunction.\<close>

definition populate_conditions :: "nat \<Rightarrow> ListFilterCriteria \<Rightarrow> (voter \<Rightarrow> bool) list" where
  "populate_conditions organizationId criteria =
     [\<lambda>v. voter_organizationId v = organizationId]
     @ (if has_items (c_congressionalDistrict criteria)
        then [\<lambda>v. inArray (congressionalDistrict v) (c_congressionalDistrict criteria)] else [])
     @ (if has_items (c_legislativeDistrict criteria)
        then [\<lambda>v. inArray (legislativeDistrict v) (c_legislativeDistrict criteria)] else [])
     @ (if has_items (c_stateSenateDistrict criteria)
        then [\<lambda>v. inArray (stateSenateDistrict v) (c_stateSenateDistrict criteria)] else [])
     @ (if has_items (c_county criteria)
        then [\<lambda>v. inArray (countyCode v) (c_county criteria)] else [])
     @ (if has_items (c_city criteria)
        then [\<lambda>v. inArray (city v) (c_city criteria)] else [])
     @ (if has_items (c_zipCode criteria)
        then [\<lambda>v. inArray (zipCode v) (c_zipCode criteria)] else [])
     @ (if has_items (c_supportLevel criteria)
        then [\<lambda>v. inArray (supportLevel v) (c_supportLevel criteria)] else [])
     @ (if c_hasPhone criteria then [\<lambda>v. not_blank (phone v)] else [])
     @ (if c_hasEmail criteria then [\<lambda>v. not_blank (email v)] else [])"

definition and_conditions :: "(voter \<Rightarrow> bool) list \<Rightarrow> voter \<Rightarrow> bool" where
  "and_conditions conditions v = list_all (\<lambda>cond. cond v) conditions"

text \<open>\<open>matchingVoters\<close>: the ids of the rows of \<open>voters\<close> that satisfy all conditions.\<close>

definition matchingVoters :: "nat \<Rightarrow> ListFilterCriteria \<Rightarrow> database \<Rightarrow> nat list" where
  "matchingVoters organizationId criteria d =
     map voter_id (filter (and_conditions (populate_conditions organizationId criteria)) (voters d))"

text \<open>
  One \<open>db.insert(schema.voterListMembers).values(batch)\<close>. The statement has no conflict
  clause: a row that repeats a stored pair of list and voter, or another row of the batch,
  violates \<open>list_voter_idx\<close> and the statement throws (\<open>None\<close>), writing nothing.
\<close>

definition member_key :: "list_member \<Rightarrow> nat \<times> nat" where
  "member_key m = (member_listId m, member_voterId m)"

definition insert_members :: "nat \<Rightarrow> nat \<Rightarrow> nat list \<Rightarrow> database \<Rightarrow> database option" where
  "insert_members listId userId ids d =
     (let new = map (\<lambda>voterId. \<lparr>member_listId = listId, member_voterId = voterId, addedBy = userId\<rparr>) ids
      in if [''listId'', ''voterId''] \<in> set voterListMembers_unique_indexes
            \<and> \<not> distinct (map member_key (voterListMembers d @ new))
         then None
         else Some (d\<lparr>voterListMembers := voterListMembers d @ new\<rparr>))"

text \<open>
  The loop \<open>for (let i = 0; i < matchingVoters.length; i += batchSize)\<close> on the ids from
  index \<open>i\<close> on; the result is the counter \<open>added\<close>, or \<open>None\<close> when an insert threw, and
  the database as the loop left it.
\<close>

definition batchSize :: nat where
  "batchSize = 1000"

function populate_loop :: "nat \<Rightarrow> nat \<Rightarrow> nat list \<Rightarrow> nat \<Rightarrow> database \<Rightarrow> nat option \<times> database" where
  "populate_loop listId userId ids added d =
     (if ids = [] then (Some added, d)
      else (case insert_members listId userId (take batchSize ids) d of
              None \<Rightarrow> (None, d)
            | Some d' \<Rightarrow>
                populate_loop listId userId (drop batchSize ids) (added + length (take batchSize ids)) d'))"
  by pat_completeness auto
termination
  by (relation "measure (\<lambda>(listId, userId, ids, added, d). length ids)") (auto simp add: batchSize_def)

declare populate_loop.simps [simp del]

datatype response = Ok nat | NotFound | BadRequest | ServerError

text \<open>
  The route for a request of organization \<open>organizationId\<close> and user \<open>userId\<close> with the
  body field \<open>filterCriteria\<close> (\<open>None\<close> when the body has none): the response and the
  database afterwards. The statements are not in a transaction; when one throws, the
  route answers 500 and what was written before stays.
\<close>

definition populate ::
  "nat \<Rightarrow> ListFilterCriteria option \<Rightarrow> nat \<Rightarrow> nat \<Rightarrow> database \<Rightarrow> response \<times> database" where
  "populate listId body_filterCriteria organizationId userId d =
     (case find (\<lambda>l. list_id l = listId \<and> list_organizationId l = organizationId) (voterLists d) of
        None \<Rightarrow> (NotFound, d)
      | Some lst \<Rightarrow>
          (case (case body_filterCriteria of Some c \<Rightarrow> Some c | None \<Rightarrow> filterCriteria lst) of
             None \<Rightarrow> (BadRequest, d)
           | Some criteria \<Rightarrow>
               (let matching = matchingVoters organizationId criteria d;
                    d1 = d\<lparr>voterListMembers :=
                             filter (\<lambda>m. member_listId m \<noteq> listId) (voterListMembers d)\<rparr>
                in case populate_loop listId userId matching 0 d1 of
                     (None, d2) \<Rightarrow> (ServerError, d2)
                   | (Some added, d2) \<Rightarrow>
                       (Ok added,
                        d2\<lparr>voterLists :=
                             map (\<lambda>l. if list_id l = listId then l\<lparr>filterCriteria := Some criteria\<rparr> else l)
                               (voterLists d2)\<rparr>))))"

text \<open>The voters of a list, in the order of its membership rows, and its stored criteria.\<close>

definition list_members :: "nat \<Rightarrow> database \<Rightarrow> nat list" where
  "list_members listId d =
     map member_voterId (filter (\<lambda>m. member_listId m = listId) (voterListMembers d))"

text \<open>The primary key of \<open>voters\<close> and the unique index of \<open>voter_list_members\<close> hold.\<close>

definition unique_keys :: "database \<Rightarrow> bool" where
  "unique_keys d \<longleftrightarrow>
     distinct (map voter_id (voters d)) \<and> distinct (map member_key (voterListMembers d))"

definition stored_criteria :: "nat \<Rightarrow> database \<Rightarrow> ListFilterCriteria option list" where
  "stored_criteria listId d = map filterCriteria (filter (\<lambda>l. list_id l = listId) (voterLists d))"


section \<open>The import script: \<open>importDistrict\<close>\<close>

text \<open>
  The script reads a file line by line. \<open>String(districtNum)\<close> is taken as the text
  \<open>district\<close>. Its \<open>VoterRecord\<close> is kept with the fields that name a column of \<open>voters\<close>
  and can be refused by it: the statements ignore the other fields, and \<open>registrationDate\<close>
  is a \<open>Date\<close> or \<open>undefined\<close>, which the column takes. The row object is a plain object
  read under fixed keys, none of which \<open>Object.prototype\<close> has; a header \<open>__proto__\<close> gives it
  no property. No statement inside the \<open>try\<close> of the reading loop can throw, so its \<open>catch\<close>
  is not reached.
\<close>

abbreviation TAB :: char where
  "TAB \<equiv> CHR 0x09"

text \<open>\<open>s.replace(/^"|"$/g, '')\<close>: one quote is removed at the start and one at the end.\<close>

definition strip_quotes :: "string \<Rightarrow> string" where
  "strip_quotes s =
     (let s1 = (if s \<noteq> [] \<and> hd s = DQUOTE then tl s else s)
      in if s1 \<noteq> [] \<and> last s1 = DQUOTE then butlast s1 else s1)"

definition script_headers :: "string \<Rightarrow> string list" where
  "script_headers line =
     map (\<lambda>h. trim (strip_quotes h)) (if TAB \<in> set line then split_on TAB line else split_on COMMA line)"

definition script_values :: "string \<Rightarrow> string list" where
  "script_values line = (if TAB \<in> set line then split_on TAB line else parseCSVLine_script line)"

definition script_row_put :: "string list \<Rightarrow> string \<times> nat \<Rightarrow> (string \<rightharpoonup> string) \<Rightarrow> (string \<rightharpoonup> string)" where
  "script_row_put vals p acc =
     (if fst p = ''__proto__'' then acc
      else acc(fst p \<mapsto> (if snd p < length vals then trim (strip_quotes (vals ! snd p)) else [])))"

definition script_row :: "string list \<Rightarrow> string list \<Rightarrow> (string \<rightharpoonup> string)" where
  "script_row hs vals = fold (script_row_put vals) (zip hs [0..<length hs]) Map.empty"

text \<open>\<open>a || b\<close> on cells: \<open>a\<close> when it is a non-empty string, else \<open>b\<close>.\<close>

definition cell_or :: "string option \<Rightarrow> string option \<Rightarrow> string option" where
  "cell_or a b = (if a \<noteq> None \<and> a \<noteq> Some [] then a else b)"

record VoterRecord =
  vr_stateVoterId :: string
  vr_organizationId :: nat
  vr_firstName :: "string option"
  vr_middleName :: "string option"
  vr_lastName :: "string option"
  vr_city :: "string option"
  vr_state :: string
  vr_zipCode :: "string option"
  vr_precinctName :: "string option"
  vr_congressionalDistrict :: string
  vr_stateSenateDistrict :: "string option"

record ImportStats =
  totalRows :: nat
  imported :: nat
  updated :: nat
  skipped :: nat
  stats_errors :: nat
  electionRecords :: nat

definition build_voter :: "string \<Rightarrow> nat \<Rightarrow> (string \<rightharpoonup> string) \<Rightarrow> VoterRecord" where
  "build_voter district orgId r =
     \<lparr>vr_stateVoterId =
        (case cell_or (r ''VoterId'') (cell_or (r ''StateVoterId'') (Some [])) of
           None \<Rightarrow> [] | Some s \<Rightarrow> s),
      vr_organizationId = orgId,
      vr_firstName = r ''FirstName'',
      vr_middleName = r ''MiddleName'',
      vr_lastName = r ''LastName'',
      vr_city = r ''City'',
      vr_state = (case cell_or (r ''State'') (Some ''MN'') of None \<Rightarrow> [] | Some s \<Rightarrow> s),
      vr_zipCode = cell_or (r ''ZipCode'') (r ''Zip''),
      vr_precinctName = r ''PrecinctName'',
      vr_congressionalDistrict = district,
      vr_stateSenateDistrict = r ''MNLegDistrict''\<rparr>"

text \<open>The voter record that the loop builds from a data line.\<close>

definition line_voter :: "string \<Rightarrow> nat \<Rightarrow> string list \<Rightarrow> string \<Rightarrow> VoterRecord" where
  "line_voter district orgId hs line = build_voter district orgId (script_row hs (script_values line))"

text \<open>
  \<open>store_record\<close> is the record as the columns of \<open>shared/schema.ts\<close> take it, and \<open>None\<close>
  when one of them refuses its value.
\<close>

definition store_record :: "VoterRecord \<Rightarrow> VoterRecord option" where
  "store_record v =
     Option.bind (varchar 50 (vr_stateVoterId v)) (\<lambda>c_stateVoterId.
     Option.bind (varchar_opt 100 (vr_firstName v)) (\<lambda>c_firstName.
     Option.bind (varchar_opt 100 (vr_middleName v)) (\<lambda>c_middleName.
     Option.bind (varchar_opt 100 (vr_lastName v)) (\<lambda>c_lastName.
     Option.bind (varchar_opt 100 (vr_city v)) (\<lambda>c_city.
     Option.bind (varchar 2 (vr_state v)) (\<lambda>c_state.
     Option.bind (varchar_opt 10 (vr_zipCode v)) (\<lambda>c_zipCode.
     Option.bind (varchar_opt 100 (vr_precinctName v)) (\<lambda>c_precinctName.
     Option.bind (varchar 10 (vr_congressionalDistrict v)) (\<lambda>c_congressionalDistrict.
     Option.bind (varchar_opt 10 (vr_stateSenateDistrict v)) (\<lambda>c_stateSenateDistrict.
       Some \<lparr>vr_stateVoterId = c_stateVoterId,
             vr_organizationId = vr_organizationId v,
             vr_firstName = c_firstName,
             vr_middleName = c_middleName,
             vr_lastName = c_lastName,
             vr_city = c_city,
             vr_state = c_state,
             vr_zipCode = c_zipCode,
             vr_precinctName = c_precinctName,
             vr_congressionalDistrict = c_congressionalDistrict,
             vr_stateSenateDistrict = c_stateSenateDistrict\<rparr>))))))))))"

text \<open>
  \<open>db.insert(schema.voters).values(voter)\<close> and
  \<open>db.update(schema.voters).set({ ...voter, updatedAt })\<close>, for a record that the columns
  take: a field that is \<open>undefined\<close> is left to the column default on insert and leaves the
  column as it is on update.
\<close>

definition new_voter :: "nat \<Rightarrow> VoterRecord \<Rightarrow> voter" where
  "new_voter new_id v =
     \<lparr>voter_id = new_id,
      voter_organizationId = vr_organizationId v,
      stateVoterId = Some (vr_stateVoterId v),
      firstName = vr_firstName v,
      lastName = vr_lastName v,
      congressionalDistrict = Some (vr_congressionalDistrict v),
      legislativeDistrict = None,
      stateSenateDistrict = vr_stateSenateDistrict v,
      countyCode = None,
      city = vr_city v,
      zipCode = vr_zipCode v,
      supportLevel = None,
      phone = None,
      email = None\<rparr>"

definition set_column :: "'a option \<Rightarrow> 'a option \<Rightarrow> 'a option" where
  "set_column new old = (case new of None \<Rightarrow> old | Some x \<Rightarrow> Some x)"

definition update_voter :: "VoterRecord \<Rightarrow> voter \<Rightarrow> voter" where
  "update_voter v old =
     old\<lparr>voter_organizationId := vr_organizationId v,
         stateVoterId := Some (vr_stateVoterId v),
         firstName := set_column (vr_firstName v) (firstName old),
         lastName := set_column (vr_lastName v) (lastName old),
         congressionalDistrict := Some (vr_congressionalDistrict v),
         stateSenateDistrict := set_column (vr_stateSenateDistrict v) (stateSenateDistrict old),
         city := set_column (vr_city v) (city old),
         zipCode := set_column (vr_zipCode v) (zipCode old)\<rparr>"

text \<open>
  One round of the first loop of \<open>processBatch\<close>. The lookup is
  \<open>where(eq(schema.voters.stateVoterId, voter.stateVoterId)).limit(1)\<close>, taken here as the
  first such row of the table; the update goes to the rows with the id found. The result
  is \<open>None\<close> when the update or the insert throws because a column refuses its value; the
  counter is incremented after the statement, so it is not when the statement throws.
\<close>

definition process_voter :: "VoterRecord \<Rightarrow> ImportStats \<times> database \<Rightarrow> (ImportStats \<times> database) option" where
  "process_voter v sd =
     (case find (\<lambda>old. stateVoterId old = Some (vr_stateVoterId v)) (voters (snd sd)) of
        Some existing \<Rightarrow>
          (case store_record v of
             None \<Rightarrow> None
           | Some w \<Rightarrow>
               Some ((fst sd)\<lparr>updated := updated (fst sd) + 1\<rparr>,
                     (snd sd)\<lparr>voters := map (\<lambda>old. if voter_id old = voter_id existing
                                                     then update_voter w old else old)
                                           (voters (snd sd))\<rparr>))
      | None \<Rightarrow>
          (case store_record v of
             None \<Rightarrow> None
           | Some w \<Rightarrow>
               Some ((fst sd)\<lparr>imported := imported (fst sd) + 1\<rparr>,
                     (snd sd)\<lparr>voters := voters (snd sd) @ [new_voter (voters_seq (snd sd) + 1) w],
                              voters_seq := voters_seq (snd sd) + 1\<rparr>)))"

text \<open>
  The loop \<open>for (const voter of voterBatch)\<close> inside the \<open>try\<close>: it stops at the first
  statement that throws; the flag tells whether it reached its end. What the earlier rounds
  wrote and counted stays: the statements are not in a transaction.
\<close>

fun process_voters :: "VoterRecord list \<Rightarrow> ImportStats \<times> database \<Rightarrow> bool \<times> ImportStats \<times> database" where
  "process_voters [] sd = (True, sd)"
| "process_voters (v # vs) sd =
     (case process_voter v sd of
        None \<Rightarrow> (False, sd)
      | Some sd' \<Rightarrow> process_voters vs sd')"

record import_state =
  stats :: ImportStats
  voterBatch :: "VoterRecord list"
  store :: database

text \<open>
  \<open>processBatch\<close>. When a statement of the voter loop throws, the \<open>catch\<close> adds the length of
  the whole batch to \<open>stats.errors\<close> and the rest of the batch is not written. The second
  loop of the \<open>try\<close>, over \<open>electionBatch\<close>, changes nothing that the model keeps: it reads
  \<open>voters\<close>, and each of its inserts into \<open>election_history\<close> gives no \<open>organizationId\<close>, which
  the column requires, so that the insert throws into the inner \<open>catch\<close> before
  \<open>stats.electionRecords\<close> is incremented.
\<close>

definition processBatch :: "import_state \<Rightarrow> import_state" where
  "processBatch st =
     (if voterBatch st = [] then st
      else
        (case process_voters (voterBatch st) (stats st, store st) of
           (finished, s, d) \<Rightarrow>
             st\<lparr>stats := (if finished then s
                          else s\<lparr>stats_errors := stats_errors s + length (voterBatch st)\<rparr>),
                store := d,
                voterBatch := []\<rparr>))"

text \<open>The body of \<open>for await (const line of rl)\<close> for a line after the first.\<close>

definition import_line :: "string \<Rightarrow> nat \<Rightarrow> string list \<Rightarrow> string \<Rightarrow> import_state \<Rightarrow> import_state" where
  "import_line district orgId hs line st =
     (let st1 = st\<lparr>stats := (stats st)\<lparr>totalRows := totalRows (stats st) + 1\<rparr>\<rparr>;
          v = line_voter district orgId hs line
      in if vr_stateVoterId v = [] then st1\<lparr>stats := (stats st1)\<lparr>skipped := skipped (stats st1) + 1\<rparr>\<rparr>
         else
           (let st2 = st1\<lparr>voterBatch := voterBatch st1 @ [v]\<rparr>
            in if BATCH_SIZE \<le> length (voterBatch st2) then processBatch st2 else st2))"

definition zero_stats :: ImportStats where
  "zero_stats =
     \<lparr>totalRows = 0, imported = 0, updated = 0, skipped = 0, stats_errors = 0, electionRecords = 0\<rparr>"

text \<open>
  \<open>importDistrict\<close> on the lines of the file (\<open>None\<close> when the file does not exist): the
  statistics it returns and the database afterwards.
\<close>

definition importDistrict ::
  "string \<Rightarrow> nat \<Rightarrow> string list option \<Rightarrow> database \<Rightarrow> ImportStats \<times> database" where
  "importDistrict district orgId file d =
     (case file of
        None \<Rightarrow> (zero_stats, d)
      | Some [] \<Rightarrow> (zero_stats, d)
      | Some (first # ls) \<Rightarrow>
          (let st = processBatch
                      (fold (import_line district orgId (script_headers first)) ls
                         \<lparr>stats = zero_stats, voterBatch = [], store = d\<rparr>)
           in (stats st, store st)))"


text \<open>The membership rows that \<open>populate\<close> writes for the voters \<open>ids\<close>.\<close>

definition new_members :: "nat \<Rightarrow> nat \<Rightarrow> nat list \<Rightarrow> list_member list" where
  "new_members listId userId ids =
     map (\<lambda>voterId. \<lparr>member_listId = listId, member_voterId = voterId, addedBy = userId\<rparr>) ids"


section \<open>Example data\<close>

text \<open>
  A small database for the concrete instances below: organization 1 has the voters 1 (in
  city A) and 2 (in city B) and the list 7; organization 2 has the voter 3, in city B, whose
  state voter id \<open>V1\<close> is that of voter 1. Voter 3 was added to list 7 by hand.
\<close>

definition example_voter :: "nat \<Rightarrow> nat \<Rightarrow> string \<Rightarrow> string \<Rightarrow> voter" where
  "example_voter i organizationId sid c =
     \<lparr>voter_id = i, voter_organizationId = organizationId, stateVoterId = Some sid,
      firstName = None, lastName = None, congressionalDistrict = None, legislativeDistrict = None,
      stateSenateDistrict = None, countyCode = None, city = Some c, zipCode = None,
      supportLevel = None, phone = None, email = None\<rparr>"

definition city_criteria :: "string \<Rightarrow> ListFilterCriteria" where
  "city_criteria c =
     \<lparr>c_congressionalDistrict = None, c_legislativeDistrict = None, c_stateSenateDistrict = None,
      c_county = None, c_city = Some [c], c_zipCode = None, c_supportLevel = None,
      c_hasPhone = False, c_hasEmail = False\<rparr>"

definition example_database :: database where
  "example_database =
     \<lparr>voters = [example_voter 1 1 ''V1'' ''A'', example_voter 2 1 ''V2'' ''B'', example_voter 3 2 ''V1'' ''B''],
      voters_seq = 3,
      electionHistory = [],
      electionHistory_seq = 0,
      voterLists = [\<lparr>list_id = 7, list_organizationId = 1, filterCriteria = None\<rparr>],
      voterListMembers = [\<lparr>member_listId = 7, member_voterId = 3, addedBy = 9\<rparr>]\<rparr>"


section \<open>Vocabulary for the statements about an upload\<close>

text \<open>
  The three outcomes of \<open>mapRowToSchema\<close> on a row: it throws, it returns \<open>null\<close>, or it
  returns a mapped row.
\<close>

definition row_throws :: "(string \<times> string) list option \<Rightarrow> string \<Rightarrow> (string \<rightharpoonup> string) \<Rightarrow> bool" where
  "row_throws cm ty r \<longleftrightarrow> isl (mapRowToSchema r cm ty)"

definition row_null :: "(string \<times> string) list option \<Rightarrow> string \<Rightarrow> (string \<rightharpoonup> string) \<Rightarrow> bool" where
  "row_null cm ty r \<longleftrightarrow> mapRowToSchema r cm ty = Inr None"

definition row_mapped :: "(string \<times> string) list option \<Rightarrow> string \<Rightarrow> (string \<rightharpoonup> string) \<Rightarrow> bool" where
  "row_mapped cm ty r \<longleftrightarrow> \<not> row_throws cm ty r \<and> \<not> row_null cm ty r"

text \<open>What the \<open>data\<close> handler does with one data row: map it, count it, write a full batch.\<close>

definition row_step ::
  "(mapped_row list \<Rightarrow> 'db \<Rightarrow> pg_error option \<times> 'db) \<Rightarrow> (string \<times> string) list option \<Rightarrow> string
     \<Rightarrow> (string \<rightharpoonup> string) \<Rightarrow> 'db upload_state \<Rightarrow> 'db upload_state" where
  "row_step ins cm ty r st =
     data_insert_batch ins
       ((data_map_row cm ty r st)\<lparr>processedRows := processedRows (data_map_row cm ty r st) + 1\<rparr>)"

text \<open>The row left in the buffer when the stream ends, and the test that there is one.\<close>

definition last_row_present :: "'db upload_state \<Rightarrow> bool" where
  "last_row_present st \<longleftrightarrow> trim (buffer st) \<noteq> [] \<and> headers st \<noteq> []"

definition last_row :: "'db upload_state \<Rightarrow> (string \<rightharpoonup> string)" where
  "last_row st = build_row (headers st) (parseCSVLine (buffer st))"

text \<open>The state in which the \<open>end\<close> event finds the handler.\<close>

definition before_end ::
  "(mapped_row list \<Rightarrow> 'db \<Rightarrow> pg_error option \<times> 'db) \<Rightarrow> (string \<times> string) list option \<Rightarrow> string
     \<Rightarrow> string list \<Rightarrow> 'db \<Rightarrow> 'db upload_state" where
  "before_end ins cm ty chunks d = fold (on_data ins cm ty) (data_events chunks) (initial_state d)"

text \<open>The state from which the \<open>end\<close> handler persists the job.\<close>

definition after_end ::
  "(mapped_row list \<Rightarrow> 'db \<Rightarrow> pg_error option \<times> 'db) \<Rightarrow> (string \<times> string) list option \<Rightarrow> string
     \<Rightarrow> string list \<Rightarrow> 'db \<Rightarrow> 'db upload_state" where
  "after_end ins cm ty chunks d =
     end_final_batch ins (end_remaining_buffer cm ty (before_end ins cm ty chunks d))"


section \<open>Properties of the parser\<close>

text \<open>
  The defining equation of the loop nests a look-ahead inside the step; one rule per branch
  of the source is easier to rewrite with.
\<close>

declare csv_loop.simps(2) [simp del]

lemma csv_loop_quote_open [simp]:
  "csv_loop fin (DQUOTE # cs) False cur res = csv_loop fin cs True cur res"
  by (simp add: csv_loop.simps(2) split: list.splits)

lemma csv_loop_quote_escaped [simp]:
  "csv_loop fin (DQUOTE # DQUOTE # cs) True cur res = csv_loop fin cs True (cur @ [DQUOTE]) res"
  by (simp add: csv_loop.simps(2))

lemma csv_loop_quote_close [simp]:
  "c \<noteq> DQUOTE \<Longrightarrow>
   csv_loop fin (DQUOTE # c # cs) True cur res = csv_loop fin (c # cs) False cur res"
  by (simp add: csv_loop.simps(2)[of fin DQUOTE])

lemma csv_loop_quote_last [simp]:
  "csv_loop fin [DQUOTE] q cur res = res @ [fin cur]"
  by (simp add: csv_loop.simps(2))

lemma csv_loop_comma [simp]:
  "csv_loop fin (COMMA # cs) False cur res = csv_loop fin cs False [] (res @ [fin cur])"
  by (simp add: csv_loop.simps(2))

lemma csv_loop_char [simp]:
  "c \<noteq> DQUOTE \<Longrightarrow> c \<noteq> COMMA \<or> q \<Longrightarrow>
   csv_loop fin (c # cs) q cur res = csv_loop fin cs q (cur @ [c]) res"
  by (auto simp add: csv_loop.simps(2))

lemma csv_loop_length: "Suc (length res) \<le> length (csv_loop fin line q cur res)"
proof (induction fin line q cur res rule: csv_loop.induct)
  case (1 fin inQuotes current result)
  then show ?case by simp
next
  case (2 fin c cs inQuotes current result)
  then show ?case
    by (subst csv_loop.simps(2)) (auto split: list.splits)
qed

lemma csv_loop_not_Nil: "csv_loop fin line q cur res \<noteq> []"
  using csv_loop_length [of res fin line q cur] by auto

lemma csv_loop_open_quote:
  "DQUOTE \<notin> set rest \<Longrightarrow> csv_loop fin rest True cur res = res @ [fin (cur @ rest)]"
  by (induction rest arbitrary: cur) auto

lemma csv_loop_scan:
  "csv_loop fin line q cur res =
     (case csv_scan fin line q cur res of (q', cur', res') \<Rightarrow> res' @ [fin cur'])"
proof (induction fin line q cur res rule: csv_loop.induct)
  case (1 fin inQuotes current result)
  then show ?case by simp
next
  case (2 fin c cs inQuotes current result)
  then show ?case
    by (subst csv_loop.simps(2), subst csv_scan.simps(2)) (simp split: list.splits)
qed

lemma csv_loop_scan_append:
  "DQUOTE \<notin> set rest \<Longrightarrow>
   csv_loop fin (pre @ rest) q cur res =
     (case csv_scan fin pre q cur res of (q', cur', res') \<Rightarrow> csv_loop fin rest q' cur' res')"
proof (induction fin pre q cur res rule: csv_scan.induct)
  case (1 fin inQuotes current result)
  then show ?case by simp
next
  case (2 fin c cs inQuotes current result)
  show ?case
  proof (cases "c = DQUOTE")
    case True
    show ?thesis
    proof (cases cs)
      case Nil
      show ?thesis
      proof (cases rest)
        case Nil
        then show ?thesis using True \<open>cs = []\<close> by (simp add: csv_loop.simps(2))
      next
        case (Cons r rs)
        then have "r \<noteq> DQUOTE" using "2.prems" by auto
        then show ?thesis using True \<open>cs = []\<close> Cons by (simp add: csv_loop.simps(2)[of fin DQUOTE])
      qed
    next
      case (Cons c' cs')
      then show ?thesis
        using True "2.IH"(2,3) [OF True Cons] "2.prems"
        by (simp add: csv_loop.simps(2)[of fin DQUOTE])
    qed
  next
    case False
    then show ?thesis
      using "2.IH"(4,5) "2.prems" by (simp add: csv_loop.simps(2)[of fin c])
  qed
qed

lemma csv_loop_absorbs:
  "DQUOTE \<notin> set rest \<Longrightarrow> csv_scan fin pre q cur res = (True, cur', res') \<Longrightarrow>
   csv_loop fin (pre @ rest) q cur res = res' @ [fin (cur' @ rest)]"
  by (simp add: csv_loop_scan_append csv_loop_open_quote)

text \<open>
  C8. The handler's parser, applied to the raw line \<open>"Smith, ""Bob""",555-1234\<close>, returns
  exactly two fields: \<open>Smith, "Bob"\<close> (the doubled quotes un-escaped to one quote, the comma
  inside the quotes kept) and \<open>555-1234\<close>.
\<close>

theorem parseCSVLine_quoting_round_trip:
  "parseCSVLine [DQUOTE, CHR ''S'', CHR ''m'', CHR ''i'', CHR ''t'', CHR ''h'', COMMA, CHR '' '',
       DQUOTE, DQUOTE, CHR ''B'', CHR ''o'', CHR ''b'', DQUOTE, DQUOTE, DQUOTE, COMMA,
       CHR ''5'', CHR ''5'', CHR ''5'', CHR ''-'', CHR ''1'', CHR ''2'', CHR ''3'', CHR ''4'']
   = [[CHR ''S'', CHR ''m'', CHR ''i'', CHR ''t'', CHR ''h'', COMMA, CHR '' '',
        DQUOTE, CHR ''B'', CHR ''o'', CHR ''b'', DQUOTE],
      ''555-1234'']"
  by (simp add: parseCSVLine_def trim_def is_ws_def)

text \<open>
  C9. Both copies of the parser are total: on every input line they return, and the array
  they return is never empty (the model has no error value because the source has no
  statement that can throw: indexing a string out of range yields \<open>undefined\<close>); what they
  return is the fields pushed by the loop and then the buffered field, flushed at the end of
  the line. After an opening quote without its match the delimiters do not start new
  fields. In full: let \<open>pre\<close> be any beginning of a line after which the loop is inside a
  quoted section, with the text \<open>cur\<close> buffered for the current field and the fields \<open>res\<close>
  pushed so far, and let no quote follow in the remainder \<open>rest\<close> of the line. Then the parser
  returns the fields \<open>res\<close> and one more field, which is \<open>cur\<close> followed by all of \<open>rest\<close>, its
  commas included (trimmed as a whole by the handler's copy, as it is by the script's). The
  same holds of the loop started inside a quoted section in any state whatever.
\<close>

theorem parseCSVLine_total:
  "parseCSVLine line \<noteq> [] \<and> parseCSVLine_script line \<noteq> [] \<and>
   parseCSVLine line = snd (snd (csv_scan trim line False [] []))
                         @ [trim (fst (snd (csv_scan trim line False [] [])))] \<and>
   parseCSVLine_script line = snd (snd (csv_scan (\<lambda>s. s) line False [] []))
                                @ [fst (snd (csv_scan (\<lambda>s. s) line False [] []))] \<and>
   (DQUOTE \<notin> set rest \<and> csv_scan trim pre False [] [] = (True, cur, res)
      \<longrightarrow> parseCSVLine (pre @ rest) = res @ [trim (cur @ rest)]) \<and>
   (DQUOTE \<notin> set rest \<and> csv_scan (\<lambda>s. s) pre False [] [] = (True, cur', res')
      \<longrightarrow> parseCSVLine_script (pre @ rest) = res' @ [cur' @ rest]) \<and>
   (DQUOTE \<notin> set rest \<longrightarrow> csv_loop fin rest True current result = result @ [fin (current @ rest)])"
proof -
  have "parseCSVLine line = snd (snd (csv_scan trim line False [] []))
      @ [trim (fst (snd (csv_scan trim line False [] [])))]"
    unfolding parseCSVLine_def by (subst csv_loop_scan) (simp add: split_beta)
  moreover have "parseCSVLine_script line = snd (snd (csv_scan (\<lambda>s. s) line False [] []))
      @ [fst (snd (csv_scan (\<lambda>s. s) line False [] []))]"
    unfolding parseCSVLine_script_def by (subst csv_loop_scan) (simp add: split_beta)
  moreover have "parseCSVLine line \<noteq> [] \<and> parseCSVLine_script line \<noteq> [] \<and>
      (DQUOTE \<notin> set rest \<and> csv_scan trim pre False [] [] = (True, cur, res)
         \<longrightarrow> parseCSVLine (pre @ rest) = res @ [trim (cur @ rest)]) \<and>
      (DQUOTE \<notin> set rest \<and> csv_scan (\<lambda>s. s) pre False [] [] = (True, cur', res')
         \<longrightarrow> parseCSVLine_script (pre @ rest) = res' @ [cur' @ rest])"
    by (simp add: parseCSVLine_def parseCSVLine_script_def csv_loop_not_Nil csv_loop_absorbs)
  moreover have "DQUOTE \<notin> set rest \<longrightarrow>
      csv_loop fin rest True current result = result @ [fin (current @ rest)]"
    by (simp add: csv_loop_open_quote)
  ultimately show ?thesis by blast
qed

theorem parseCSVLine_total_witness:
  "DQUOTE \<notin> set ''b,c'' \<and>
   csv_scan trim ([DQUOTE, CHR ''a'', DQUOTE, COMMA, DQUOTE]) False [] [] = (True, [], [''a'']) \<and>
   csv_scan (\<lambda>s. s) ([DQUOTE, CHR ''a'', DQUOTE, COMMA, DQUOTE]) False [] [] = (True, [], [''a'']) \<and>
   parseCSVLine ([DQUOTE, CHR ''a'', DQUOTE, COMMA, DQUOTE] @ ''b,c'') = [''a'', ''b,c''] \<and>
   parseCSVLine_script ([DQUOTE, CHR ''a'', DQUOTE, COMMA, DQUOTE] @ ''b,c'') = [''a'', ''b,c''] \<and>
   parseCSVLine [DQUOTE, CHR ''a'', DQUOTE, COMMA, DQUOTE, CHR ''b'', COMMA, CHR ''c''] \<noteq> [] \<and>
   csv_loop trim ''b,c'' True ''x'' [''a''] = [''a'', ''xb,c'']"
  using parseCSVLine_total [of "[DQUOTE, CHR ''a'', DQUOTE, COMMA, DQUOTE, CHR ''b'', COMMA, CHR ''c'']"
      "''b,c''" "[DQUOTE, CHR ''a'', DQUOTE, COMMA, DQUOTE]" "[]" "[''a'']" "[]" "[''a'']"
      trim "''x''" "[''a'']"]
  by (simp add: trim_def is_ws_def)


section \<open>Properties of the mapper\<close>

text \<open>
  An entry of the mapping whose source column reads as \<open>undefined\<close> or as the empty string
  leaves \<open>mapped\<close> as it is, so that the result is the one on the mapping without these
  entries; and a mapping none of whose source columns reads as present gives \<open>null\<close>.
\<close>

lemma map_entry_absent: "\<not> cell_present r (fst e) \<Longrightarrow> map_entry r e acc = acc"
  by (cases acc) (simp_all add: map_entry_def)

lemma fold_map_entry_filter:
  "fold (map_entry r) (filter (\<lambda>e. cell_present r (fst e)) m) acc = fold (map_entry r) m acc"
  by (induction m arbitrary: acc) (simp_all add: map_entry_absent)

lemma mapRowToSchema_filter:
  "mapRowToSchema r (Some m) ty = mapRowToSchema r (Some (filter (\<lambda>e. cell_present r (fst e)) m)) ty"
  by (simp add: mapRowToSchema_def fold_map_entry_filter)

lemma mapRowToSchema_none_present:
  assumes "\<forall>e\<in>set m. \<not> cell_present r (fst e)"
  shows "mapRowToSchema r (Some m) ty = Inr None"
proof -
  from assms have "filter (\<lambda>e. cell_present r (fst e)) m = []"
    by (simp add: filter_empty_conv)
  then have "mapRowToSchema r (Some m) ty = mapRowToSchema r (Some []) ty"
    using mapRowToSchema_filter [of r m ty] by simp
  then show ?thesis by (simp add: mapRowToSchema_def)
qed

text \<open>
  A source column that names no member of \<open>Object.prototype\<close> reads as present exactly when
  the row owns a non-empty cell for it.
\<close>

lemma cell_present_own:
  "sourceCol \<notin> set Object_prototype \<Longrightarrow>
   cell_present r sourceCol \<longleftrightarrow> r sourceCol \<noteq> None \<and> r sourceCol \<noteq> Some []"
  by (auto simp add: cell_present_def get_property_def split: option.splits)

lemma cell_present_inherited:
  "sourceCol \<in> set Object_prototype \<Longrightarrow> r sourceCol = None \<Longrightarrow> cell_present r sourceCol"
  by (simp add: cell_present_def get_property_def)

lemma build_row_one: "build_row [h] vals = (if h = ''__proto__'' then Map.empty else [h \<mapsto> (if vals = [] then [] else hd vals)])"
  by (cases vals) (simp_all add: build_row_def row_put_def)

text \<open>
  C10 fails on \<open>mapRowToSchema\<close>. The guard reads \<open>row[sourceCol]\<close> on a plain object, which
  also finds what the object inherits. A file has the one header \<open>VoterId\<close> and the row \<open>V1\<close>;
  the mapping is \<open>{toString: firstName}\<close>. The row has no cell \<open>toString\<close>: the source column
  is absent. Yet the mapper does not omit it: it returns a mapped row whose \<open>firstName\<close> is
  the function \<open>Object.prototype.toString\<close>, and the \<open>data\<close> handler adds that row to the
  batch.
\<close>

theorem mapRowToSchema_empty_cells:
  "build_row [''VoterId''] (parseCSVLine ''V1'') ''toString'' = None \<and>
   mapRowToSchema (build_row [''VoterId''] (parseCSVLine ''V1''))
     (Some [(''toString'', ''firstName'')]) ''voters''
     = Inr (Some [(''firstName'', JInherited ''toString'')]) \<and>
   batch (data_map_row (Some [(''toString'', ''firstName'')]) ''voters''
            (build_row [''VoterId''] (parseCSVLine ''V1'')) (initial_state ()))
     = [[(''firstName'', JInherited ''toString'')]]"
  by (simp add: build_row_one parseCSVLine_def trim_def is_ws_def mapRowToSchema_def map_entry_def
      cell_present_def get_property_def Object_prototype_def type_conversion_def assign_def
      data_map_row_def initial_state_def)

text \<open>
  C7 fails on \<open>mapRowToSchema\<close>: a date column takes a value that is no date as it is. The
  cell \<open>tomorrow\<close> mapped to \<open>registrationDate\<close> is stored as the string \<open>tomorrow\<close>, and
  \<open>13/45/2020\<close> is rearranged to \<open>2020-13-45\<close>; neither becomes \<open>null\<close> or \<open>undefined\<close>.
\<close>

theorem mapRowToSchema_unparseable_date:
  "mapRowToSchema [''RegistrationDate'' \<mapsto> ''tomorrow'']
     (Some [(''RegistrationDate'', ''registrationDate'')]) ''voters''
     = Inr (Some [(''registrationDate'', JString ''tomorrow'')]) \<and>
   mapRowToSchema [''RegistrationDate'' \<mapsto> ''13/45/2020'']
     (Some [(''RegistrationDate'', ''registrationDate'')]) ''voters''
     = Inr (Some [(''registrationDate'', JString ''2020-13-45'')])"
  by (simp add: mapRowToSchema_def map_entry_def cell_present_def get_property_def
      type_conversion_def padStart2_def assign_def)


section \<open>Properties of the upload handler\<close>


lemma split_on_not_Nil [simp]: "split_on d s \<noteq> []"
  by (induction s) (auto split: list.splits)

lemma split_on_append:
  "split_on d (a @ b) = butlast (split_on d a) @ split_on d (last (split_on d a) @ b)"
proof (induction a)
  case Nil
  then show ?case by simp
next
  case (Cons c a)
  show ?case
  proof (cases "c = d")
    case True
    then show ?thesis using Cons by simp
  next
    case False
    obtain x xs where sa: "split_on d a = x # xs"
      by (cases "split_on d a") auto
    show ?thesis
    proof (cases xs)
      case Nil
      then show ?thesis using False sa Cons by simp
    next
      case (Cons y ys)
      then show ?thesis using False sa Cons.IH by simp
    qed
  qed
qed

lemma process_line_row_step:
  "process_line ins cm ty l st =
     (if trim l = [] then st
      else if headers st = [] then st\<lparr>headers := parseCSVLine l\<rparr>
      else row_step ins cm ty (build_row (headers st) (parseCSVLine l)) st)"
  by (simp add: process_line_def row_step_def Let_def)

lemma data_map_row_buffer:
  "data_map_row cm ty r (st\<lparr>buffer := b\<rparr>) = (data_map_row cm ty r st)\<lparr>buffer := b\<rparr>"
  by (cases "mapRowToSchema r cm ty" rule: sum.exhaust; cases "projr (mapRowToSchema r cm ty)")
     (simp_all add: data_map_row_def)

lemma data_insert_batch_buffer:
  "data_insert_batch ins (st\<lparr>buffer := b\<rparr>) = (data_insert_batch ins st)\<lparr>buffer := b\<rparr>"
  by (cases "ins (batch st) (db st)"; cases "fst (ins (batch st) (db st))")
     (simp_all add: data_insert_batch_def)

lemma upd_buffer_processedRows:
  "st\<lparr>buffer := b, processedRows := n\<rparr> = st\<lparr>processedRows := n, buffer := b\<rparr>"
  by (cases st) simp

lemma row_step_buffer:
  "row_step ins cm ty r (st\<lparr>buffer := b\<rparr>) = (row_step ins cm ty r st)\<lparr>buffer := b\<rparr>"
  by (simp add: row_step_def data_map_row_buffer upd_buffer_processedRows data_insert_batch_buffer)

lemma process_line_buffer:
  "process_line ins cm ty l (st\<lparr>buffer := b\<rparr>) = (process_line ins cm ty l st)\<lparr>buffer := b\<rparr>"
  by (simp add: process_line_row_step row_step_buffer)

lemma fold_process_line_buffer:
  "fold (process_line ins cm ty) ls (st\<lparr>buffer := b\<rparr>) = (fold (process_line ins cm ty) ls st)\<lparr>buffer := b\<rparr>"
  by (induction ls arbitrary: st) (simp_all add: process_line_buffer)

lemma split_on_no_sep: "d \<notin> set s \<Longrightarrow> split_on d s = [s]"
  by (induction s) auto

lemma last_split_on_no_sep: "d \<notin> set (last (split_on d s))"
  by (induction s) (auto split: list.splits)

lemma buffer_fold_process_line [simp]:
  "buffer (fold (process_line ins cm ty) ls st) = buffer st"
proof -
  have "fold (process_line ins cm ty) ls st = fold (process_line ins cm ty) ls (st\<lparr>buffer := buffer st\<rparr>)"
    by simp
  also have "\<dots> = (fold (process_line ins cm ty) ls st)\<lparr>buffer := buffer st\<rparr>"
    by (rule fold_process_line_buffer)
  finally have eq: "fold (process_line ins cm ty) ls st
      = (fold (process_line ins cm ty) ls st)\<lparr>buffer := buffer st\<rparr>" .
  show ?thesis by (subst eq) simp
qed

lemma fold_on_data:
  "LF \<notin> set (buffer st) \<Longrightarrow>
   fold (on_data ins cm ty) chunks st =
     (fold (process_line ins cm ty) (butlast (split_on LF (buffer st @ concat chunks))) st)
       \<lparr>buffer := last (split_on LF (buffer st @ concat chunks))\<rparr>"
proof (induction chunks arbitrary: st)
  case Nil
  then show ?case by (simp add: split_on_no_sep)
next
  case (Cons c cs)
  let ?L1 = "split_on LF (buffer st @ c)"
  let ?st' = "on_data ins cm ty c st"
  have st': "?st' = (fold (process_line ins cm ty) (butlast ?L1) st)\<lparr>buffer := last ?L1\<rparr>"
    by (simp add: on_data_def Let_def fold_process_line_buffer)
  have buf: "buffer ?st' = last ?L1"
    by (simp add: st')
  have nolf: "LF \<notin> set (buffer ?st')"
    unfolding buf by (rule last_split_on_no_sep)
  let ?L2 = "split_on LF (last ?L1 @ concat cs)"
  have whole: "split_on LF (buffer st @ concat (c # cs)) = butlast ?L1 @ ?L2"
    using split_on_append [of LF "buffer st @ c" "concat cs"] by simp
  have "fold (on_data ins cm ty) (c # cs) st = fold (on_data ins cm ty) cs ?st'"
    by simp
  also have "\<dots> = (fold (process_line ins cm ty) (butlast ?L2) ?st')\<lparr>buffer := last ?L2\<rparr>"
    using Cons.IH [OF nolf] by (simp only: buf)
  also have "\<dots> = (fold (process_line ins cm ty) (butlast ?L1 @ butlast ?L2) st)\<lparr>buffer := last ?L2\<rparr>"
    by (simp add: st' fold_process_line_buffer)
  finally show ?case
    by (simp only: whole) (simp add: butlast_append)
qed


lemma mapRowToSchema_cases:
  obtains (throws) e where "mapRowToSchema r cm ty = Inl e"
  | (null) "mapRowToSchema r cm ty = Inr None"
  | (mapped) m where "mapRowToSchema r cm ty = Inr (Some m)"
proof (cases "mapRowToSchema r cm ty")
  case (Inl e)
  then show ?thesis by (rule throws)
next
  case (Inr b)
  then show ?thesis by (cases b) (auto intro: null mapped)
qed

lemma data_map_row_frame [simp]:
  "processedRows (data_map_row cm ty r st) = processedRows st"
  "headers (data_map_row cm ty r st) = headers st"
  "successRows (data_map_row cm ty r st) = successRows st"
  by (cases r cm ty rule: mapRowToSchema_cases; simp add: data_map_row_def)+

lemma data_map_row_errorRows:
  "errorRows (data_map_row cm ty r st) = errorRows st + (if row_throws cm ty r then 1 else 0)"
  by (cases r cm ty rule: mapRowToSchema_cases) (simp_all add: data_map_row_def row_throws_def)

lemma data_map_row_batch:
  "length (batch (data_map_row cm ty r st))
     = length (batch st) + (if row_throws cm ty r \<or> row_null cm ty r then 0 else 1)"
  by (cases r cm ty rule: mapRowToSchema_cases)
     (simp_all add: data_map_row_def row_throws_def row_null_def)


lemma ins_cases:
  obtains (ok) d where "ins b x = (None, d)" | (failed) msg d where "ins b x = (Some msg, d)"
proof (cases "ins b x")
  case (Pair a d)
  then show ?thesis by (cases a) (auto intro: ok failed)
qed

lemma data_insert_batch_frame [simp]:
  "processedRows (data_insert_batch ins st) = processedRows st"
  "headers (data_insert_batch ins st) = headers st"
  by (cases ins "batch st" "db st" rule: ins_cases; simp add: data_insert_batch_def)+

lemma data_insert_batch_sum:
  "successRows (data_insert_batch ins st) + errorRows (data_insert_batch ins st)
     + length (batch (data_insert_batch ins st))
   = successRows st + errorRows st + length (batch st)"
  by (cases ins "batch st" "db st" rule: ins_cases) (simp_all add: data_insert_batch_def)



lemma row_step_frame [simp]:
  "processedRows (row_step ins cm ty r st) = Suc (processedRows st)"
  "headers (row_step ins cm ty r st) = headers st"
  by (simp_all add: row_step_def)

lemma row_step_sum:
  "successRows (row_step ins cm ty r st) + errorRows (row_step ins cm ty r st)
     + length (batch (row_step ins cm ty r st))
   = successRows st + errorRows st + length (batch st) + (if row_null cm ty r then 0 else 1)"
  unfolding row_step_def
  by (subst data_insert_batch_sum)
     (auto simp add: data_map_row_errorRows data_map_row_batch row_throws_def row_null_def)





lemma fold_process_line_Cons:
  "fold (process_line ins cm ty) (l # ls) st =
     (if trim l = [] then fold (process_line ins cm ty) ls st
      else if headers st = [] then fold (process_line ins cm ty) ls (st\<lparr>headers := parseCSVLine l\<rparr>)
      else fold (process_line ins cm ty) ls
             (row_step ins cm ty (build_row (headers st) (parseCSVLine l)) st))"
  by (simp add: process_line_row_step)

lemma fold_process_line_headers:
  "headers (fold (process_line ins cm ty) ls st) = fst (observe (headers st) ls)"
proof (induction ls arbitrary: st)
  case Nil
  then show ?case by simp
next
  case (Cons l ls)
  show ?case
    by (simp only: fold_process_line_Cons observe.simps) (simp add: Cons.IH)
qed

lemma fold_process_line_processedRows:
  "processedRows (fold (process_line ins cm ty) ls st)
     = processedRows st + length (snd (observe (headers st) ls))"
proof (induction ls arbitrary: st)
  case Nil
  then show ?case by simp
next
  case (Cons l ls)
  show ?case
    by (simp only: fold_process_line_Cons observe.simps) (simp add: Cons.IH)
qed

lemma fold_process_line_sum:
  "successRows (fold (process_line ins cm ty) ls st) + errorRows (fold (process_line ins cm ty) ls st)
     + length (batch (fold (process_line ins cm ty) ls st))
   = successRows st + errorRows st + length (batch st)
     + length (filter (\<lambda>r. \<not> row_null cm ty r) (snd (observe (headers st) ls)))"
proof (induction ls arbitrary: st)
  case Nil
  then show ?case by simp
next
  case (Cons l ls)
  show ?case
    using row_step_sum [of ins cm ty "build_row (headers st) (parseCSVLine l)" st]
    by (simp only: fold_process_line_Cons observe.simps) (simp add: Cons.IH)
qed





lemma end_remaining_buffer_absent:
  "\<not> last_row_present st \<Longrightarrow> end_remaining_buffer cm ty st = st"
  by (auto simp add: end_remaining_buffer_def last_row_present_def)

lemma end_remaining_buffer_errors [simp]:
  "errors (end_remaining_buffer cm ty st) = errors st"
  by (cases "last_row st" cm ty rule: mapRowToSchema_cases)
     (simp_all add: end_remaining_buffer_def last_row_def Let_def)

lemma end_remaining_buffer_processedRows:
  "processedRows (end_remaining_buffer cm ty st)
     = processedRows st + (if last_row_present st then 1 else 0)"
  by (cases "last_row st" cm ty rule: mapRowToSchema_cases)
     (simp_all add: end_remaining_buffer_def last_row_def last_row_present_def Let_def)

lemma end_remaining_buffer_sum:
  "successRows (end_remaining_buffer cm ty st) + errorRows (end_remaining_buffer cm ty st)
     + length (batch (end_remaining_buffer cm ty st))
   = successRows st + errorRows st + length (batch st)
     + (if last_row_present st \<and> \<not> row_null cm ty (last_row st) then 1 else 0)"
  by (cases "last_row st" cm ty rule: mapRowToSchema_cases)
     (simp_all add: end_remaining_buffer_def last_row_def last_row_present_def Let_def row_null_def)


lemma end_final_batch_frame [simp]:
  "processedRows (end_final_batch ins st) = processedRows st"
  "errors (end_final_batch ins st) = errors st"
  by (cases ins "batch st" "db st" rule: ins_cases; simp add: end_final_batch_def)+

lemma end_final_batch_sum:
  "successRows (end_final_batch ins st) + errorRows (end_final_batch ins st)
     = successRows st + errorRows st + length (batch st)"
  by (cases ins "batch st" "db st" rule: ins_cases) (simp_all add: end_final_batch_def)



lemma concat_data_events [simp]: "concat (data_events chunks) = concat chunks"
  by (induction chunks) (simp_all add: data_events_def)

lemma before_end_eq:
  "before_end ins cm ty chunks d =
     (fold (process_line ins cm ty) (butlast (split_on LF (concat chunks))) (initial_state d))
       \<lparr>buffer := last (split_on LF (concat chunks))\<rparr>"
proof -
  have "LF \<notin> set (buffer (initial_state d))" by (simp add: initial_state_def)
  then have "fold (on_data ins cm ty) (data_events chunks) (initial_state d) =
      (fold (process_line ins cm ty)
         (butlast (split_on LF (buffer (initial_state d) @ concat (data_events chunks)))) (initial_state d))
       \<lparr>buffer := last (split_on LF (buffer (initial_state d) @ concat (data_events chunks)))\<rparr>"
    by (rule fold_on_data)
  then show ?thesis by (simp add: before_end_def initial_state_def)
qed

lemma before_end_fields:
  "buffer (before_end ins cm ty chunks d) = last (split_on LF (concat chunks))"
  "headers (before_end ins cm ty chunks d) = fst (observe [] (butlast (split_on LF (concat chunks))))"
  "processedRows (before_end ins cm ty chunks d)
     = length (snd (observe [] (butlast (split_on LF (concat chunks)))))"
  by (simp_all add: before_end_eq fold_process_line_headers fold_process_line_processedRows
      initial_state_def)

lemma file_rows_eq:
  "file_rows (concat chunks) =
     snd (observe [] (butlast (split_on LF (concat chunks))))
     @ (if last_row_present (before_end ins cm ty chunks d)
        then [last_row (before_end ins cm ty chunks d)] else [])"
  by (simp add: file_rows_def Let_def last_row_present_def last_row_def before_end_fields)

lemma upload_job_sequential:
  "\<not> end_overlaps ins cm ty chunks d \<Longrightarrow>
   upload_job ins cm ty chunks d
     = Some (completed_job (after_end ins cm ty chunks d), db (after_end ins cm ty chunks d))"
  by (simp add: upload_job_def on_end_def Let_def before_end_def after_end_def)

lemma upload_job_Some:
  "upload_job ins cm ty chunks d = Some (job, d') \<Longrightarrow>
   job = completed_job (after_end ins cm ty chunks d) \<and> d' = db (after_end ins cm ty chunks d)"
  by (auto simp add: upload_job_def on_end_def Let_def before_end_def after_end_def split: if_splits)


lemma before_end_sum:
  "successRows (before_end ins cm ty chunks d) + errorRows (before_end ins cm ty chunks d)
     + length (batch (before_end ins cm ty chunks d))
   = length (filter (\<lambda>r. \<not> row_null cm ty r) (snd (observe [] (butlast (split_on LF (concat chunks))))))"
  using fold_process_line_sum [of ins cm ty "butlast (split_on LF (concat chunks))" "initial_state d"]
  by (simp add: before_end_eq) (simp add: initial_state_def)





lemma after_end_fields:
  "processedRows (after_end ins cm ty chunks d) = length (file_rows (concat chunks))"
  "successRows (after_end ins cm ty chunks d) + errorRows (after_end ins cm ty chunks d)
     = length (filter (\<lambda>r. \<not> row_null cm ty r) (file_rows (concat chunks)))"
proof -
  let ?B = "before_end ins cm ty chunks d"
  let ?E = "end_remaining_buffer cm ty ?B"
  have rows: "file_rows (concat chunks) =
      snd (observe [] (butlast (split_on LF (concat chunks))))
      @ (if last_row_present ?B then [last_row ?B] else [])"
    by (rule file_rows_eq)
  show "processedRows (after_end ins cm ty chunks d) = length (file_rows (concat chunks))"
    by (simp add: after_end_def rows end_remaining_buffer_processedRows before_end_fields)
  have "successRows (end_final_batch ins ?E) + errorRows (end_final_batch ins ?E)
      = successRows ?E + errorRows ?E + length (batch ?E)"
    by (rule end_final_batch_sum)
  also have "\<dots> = successRows ?B + errorRows ?B + length (batch ?B)
      + (if last_row_present ?B \<and> \<not> row_null cm ty (last_row ?B) then 1 else 0)"
    by (rule end_remaining_buffer_sum)
  also have "\<dots> = length (filter (\<lambda>r. \<not> row_null cm ty r) (file_rows (concat chunks)))"
    by (simp add: rows before_end_sum)
  finally show "successRows (after_end ins cm ty chunks d) + errorRows (after_end ins cm ty chunks d)
      = length (filter (\<lambda>r. \<not> row_null cm ty r) (file_rows (concat chunks)))"
    by (simp add: after_end_def)
qed


text \<open>
  The batch holds mapped rows only, so it stays below \<open>BATCH_SIZE\<close>, and no insert is awaited
  by the \<open>data\<close> handler, as long as fewer rows than that are mapped.
\<close>

lemma observe_append:
  "observe hs (a @ b) =
     (fst (observe (fst (observe hs a)) b), snd (observe hs a) @ snd (observe (fst (observe hs a)) b))"
  by (induction a arbitrary: hs) simp_all

lemma data_insert_batch_batch: "length (batch (data_insert_batch ins st)) \<le> length (batch st)"
  by (cases ins "batch st" "db st" rule: ins_cases) (simp_all add: data_insert_batch_def)

lemma data_map_row_mapped:
  "length (batch (data_map_row cm ty r st))
     = length (batch st) + (if row_mapped cm ty r then 1 else 0)"
  by (simp add: data_map_row_batch row_mapped_def)

lemma row_step_batch:
  "length (batch (row_step ins cm ty r st)) \<le> length (batch st) + (if row_mapped cm ty r then 1 else 0)"
  unfolding row_step_def
  using data_insert_batch_batch
    [of ins "(data_map_row cm ty r st)\<lparr>processedRows := processedRows (data_map_row cm ty r st) + 1\<rparr>"]
  by (simp add: data_map_row_mapped)

lemma fold_process_line_batch:
  "length (batch (fold (process_line ins cm ty) ls st))
     \<le> length (batch st) + length (filter (row_mapped cm ty) (snd (observe (headers st) ls)))"
proof (induction ls arbitrary: st)
  case Nil
  then show ?case by simp
next
  case (Cons l ls)
  show ?case
    using row_step_batch [of ins cm ty "build_row (headers st) (parseCSVLine l)" st]
      Cons.IH [of "row_step ins cm ty (build_row (headers st) (parseCSVLine l)) st"]
      Cons.IH [of "st\<lparr>headers := parseCSVLine l\<rparr>"] Cons.IH [of st]
    by (simp only: fold_process_line_Cons observe.simps) (auto split: if_splits)
qed

lemma lines_await_Cons:
  "lines_await ins cm ty (l # ls) st =
     (if trim l = [] then lines_await ins cm ty ls st
      else if headers st = [] then lines_await ins cm ty ls (st\<lparr>headers := parseCSVLine l\<rparr>)
      else BATCH_SIZE \<le> length (batch (data_map_row cm ty (build_row (headers st) (parseCSVLine l)) st))
           \<or> lines_await ins cm ty ls (row_step ins cm ty (build_row (headers st) (parseCSVLine l)) st))"
  by (simp add: line_awaits_def process_line_row_step)

declare lines_await.simps(2) [simp del]

lemma lines_await_few:
  "length (batch st) + length (filter (row_mapped cm ty) (snd (observe (headers st) ls))) < BATCH_SIZE
   \<Longrightarrow> \<not> lines_await ins cm ty ls st"
proof (induction ls arbitrary: st)
  case Nil
  then show ?case by simp
next
  case (Cons l ls)
  show ?case
  proof (cases "trim l = []")
    case True
    then show ?thesis using Cons.IH [of st] Cons.prems by (simp add: lines_await_Cons)
  next
    case False
    show ?thesis
    proof (cases "headers st = []")
      case True
      then show ?thesis
        using \<open>trim l \<noteq> []\<close> Cons.IH [of "st\<lparr>headers := parseCSVLine l\<rparr>"] Cons.prems
        by (simp add: lines_await_Cons)
    next
      case hs: False
      let ?r = "build_row (headers st) (parseCSVLine l)"
      from Cons.prems \<open>trim l \<noteq> []\<close> hs
      have bound: "length (batch st) + (if row_mapped cm ty ?r then 1 else 0)
          + length (filter (row_mapped cm ty) (snd (observe (headers st) ls))) < BATCH_SIZE"
        by (simp split: if_splits)
      then have now: "\<not> BATCH_SIZE \<le> length (batch (data_map_row cm ty ?r st))"
        by (simp add: data_map_row_mapped)
      have "length (batch (row_step ins cm ty ?r st))
          + length (filter (row_mapped cm ty) (snd (observe (headers (row_step ins cm ty ?r st)) ls)))
          < BATCH_SIZE"
        using bound row_step_batch [of ins cm ty ?r st] by simp
      then have "\<not> lines_await ins cm ty ls (row_step ins cm ty ?r st)"
        by (rule Cons.IH)
      then show ?thesis
        using \<open>trim l \<noteq> []\<close> hs now by (simp add: lines_await_Cons)
    qed
  qed
qed

lemma file_rows_prefix:
  "length (filter P (snd (observe [] (butlast (split_on LF content)))))
     \<le> length (filter P (file_rows content))"
  by (simp add: file_rows_def Let_def)

lemma end_overlaps_few:
  assumes "length (filter (row_mapped cm ty) (file_rows (concat chunks))) < BATCH_SIZE"
  shows "\<not> end_overlaps ins cm ty chunks d"
proof (cases "data_events chunks = []")
  case True
  then show ?thesis by (simp add: end_overlaps_def)
next
  case False
  let ?init = "butlast (data_events chunks)" and ?c = "last (data_events chunks)"
  let ?L1 = "split_on LF (concat ?init)"
  let ?st0 = "fold (on_data ins cm ty) ?init (initial_state d)"
  let ?L2 = "split_on LF (last ?L1 @ ?c)"
  have ev: "concat chunks = concat ?init @ ?c"
    using False append_butlast_last_id [of "data_events chunks"]
      concat_append [of ?init "[?c]"] concat_data_events [of chunks]
    by simp
  have st0: "?st0 = (fold (process_line ins cm ty) (butlast ?L1) (initial_state d))\<lparr>buffer := last ?L1\<rparr>"
    using fold_on_data [of "initial_state d" ins cm ty ?init] by (simp add: initial_state_def)
  have whole: "split_on LF (concat chunks) = butlast ?L1 @ ?L2"
    unfolding ev by (rule split_on_append)
  then have lines: "butlast (split_on LF (concat chunks)) = butlast ?L1 @ butlast ?L2"
    by (simp add: butlast_append)
  let ?hs = "fst (observe [] (butlast ?L1))"
  have hs: "headers ?st0 = ?hs"
    by (simp add: st0 fold_process_line_headers) (simp add: initial_state_def)
  have "length (batch ?st0) \<le> length (filter (row_mapped cm ty) (snd (observe [] (butlast ?L1))))"
    using fold_process_line_batch [of ins cm ty "butlast ?L1" "initial_state d"]
    by (simp add: st0) (simp add: initial_state_def)
  moreover have "length (filter (row_mapped cm ty) (snd (observe [] (butlast ?L1))))
      + length (filter (row_mapped cm ty) (snd (observe ?hs (butlast ?L2))))
      = length (filter (row_mapped cm ty) (snd (observe [] (butlast (split_on LF (concat chunks))))))"
    by (simp add: lines observe_append)
  moreover have "length (filter (row_mapped cm ty) (snd (observe [] (butlast (split_on LF (concat chunks))))))
      \<le> length (filter (row_mapped cm ty) (file_rows (concat chunks)))"
    by (rule file_rows_prefix)
  ultimately have "length (batch (?st0\<lparr>buffer := last ?L2\<rparr>))
      + length (filter (row_mapped cm ty) (snd (observe (headers (?st0\<lparr>buffer := last ?L2\<rparr>)) (butlast ?L2))))
      < BATCH_SIZE"
    using assms by (simp add: hs)
  then have "\<not> lines_await ins cm ty (butlast ?L2) (?st0\<lparr>buffer := last ?L2\<rparr>)"
    by (rule lines_await_few)
  moreover have "buffer ?st0 = last ?L1"
    by (simp add: st0)
  ultimately show ?thesis
    by (simp add: end_overlaps_def data_awaits_def Let_def)
qed

lemma upload_job_few:
  "length (filter (row_mapped cm ty) (file_rows (concat chunks))) < BATCH_SIZE \<Longrightarrow>
   upload_job ins cm ty chunks d
     = Some (completed_job (after_end ins cm ty chunks d), db (after_end ins cm ty chunks d))"
  by (rule upload_job_sequential) (rule end_overlaps_few)

text \<open>
  C4, as the handler has it. Take any upload in which the end of the stream does not
  overlap a batch insert that the \<open>data\<close> handler awaits (for an upload with that overlap
  \<open>upload_job\<close> is \<open>None\<close>, and nothing is said here). Whatever the batch writer does, the
  job is persisted as completed with \<open>processedRows = totalRows =\<close> the number of data rows
  of the file, and \<open>successRows + errorRows\<close> is the number of those rows on which
  \<open>mapRowToSchema\<close> did not return \<open>null\<close>; hence
  \<open>successRows + errorRows \<le> processedRows \<le> totalRows\<close>. A row that maps to \<open>null\<close> is
  counted as processed and in neither of the two other counters. An upload in which fewer
  than \<open>BATCH_SIZE\<close> rows are mapped never has the overlap.
\<close>

theorem upload_job_counters:
  "(upload_job ins cm ty chunks d = Some (job, d') \<longrightarrow>
      job_status job = ''completed'' \<and>
      job_processedRows job = length (file_rows (concat chunks)) \<and>
      job_totalRows job = job_processedRows job \<and>
      job_successRows job + job_errorRows job
        = length (filter (\<lambda>r. \<not> row_null cm ty r) (file_rows (concat chunks))) \<and>
      job_successRows job + job_errorRows job \<le> job_processedRows job) \<and>
   (length (filter (row_mapped cm ty) (file_rows (concat chunks))) < BATCH_SIZE
      \<longrightarrow> upload_job ins cm ty chunks d \<noteq> None)"
proof -
  have le: "length (filter (\<lambda>r. \<not> row_null cm ty r) (file_rows (concat chunks)))
      \<le> length (file_rows (concat chunks))"
    by (rule length_filter_le)
  have "job_status job = ''completed'' \<and>
      job_processedRows job = length (file_rows (concat chunks)) \<and>
      job_totalRows job = job_processedRows job \<and>
      job_successRows job + job_errorRows job
        = length (filter (\<lambda>r. \<not> row_null cm ty r) (file_rows (concat chunks))) \<and>
      job_successRows job + job_errorRows job \<le> job_processedRows job"
    if "upload_job ins cm ty chunks d = Some (job, d')"
  proof -
    from that have job: "job = completed_job (after_end ins cm ty chunks d)"
      by (simp add: upload_job_Some)
    show ?thesis
      using le after_end_fields [of ins cm ty chunks d] by (simp add: job completed_job_def)
  qed
  moreover have "upload_job ins cm ty chunks d \<noteq> None"
    if "length (filter (row_mapped cm ty) (file_rows (concat chunks))) < BATCH_SIZE"
    using upload_job_few [OF that, of ins d] by simp
  ultimately show ?thesis by blast
qed

text \<open>
  Two small voter files, each sent as one chunk with the mapping \<open>{VoterId: stateVoterId}\<close>.
  In the first the row \<open>V7,Al\<close> is mapped and the row \<open>,Bo\<close> maps to \<open>null\<close>; the second has
  the row \<open>,Bo\<close> alone.
\<close>

lemma split_on_example:
  "split_on LF (''VoterId,FirstName'' @ [LF] @ ''V7,Al'' @ [LF] @ '',Bo'' @ [LF])
     = [''VoterId,FirstName'', ''V7,Al'', '',Bo'', []]"
  "split_on LF (''VoterId,FirstName'' @ [LF] @ '',Bo'' @ [LF]) = [''VoterId,FirstName'', '',Bo'', []]"
  by simp_all

lemma trim_example:
  "trim ''VoterId,FirstName'' = ''VoterId,FirstName''" "trim ''V7,Al'' = ''V7,Al''"
  "trim '',Bo'' = '',Bo''" "trim [] = []"
  by (simp_all add: trim_def is_ws_def)

lemma parseCSVLine_example:
  "parseCSVLine ''VoterId,FirstName'' = [''VoterId'', ''FirstName'']"
  "parseCSVLine ''V7,Al'' = [''V7'', ''Al'']"
  "parseCSVLine '',Bo'' = ['''', ''Bo'']"
  by (simp_all add: parseCSVLine_def trim_def is_ws_def)

lemma build_row_example:
  "build_row [''VoterId'', ''FirstName''] [a, b] = [''VoterId'' \<mapsto> a, ''FirstName'' \<mapsto> b]"
  by (simp add: build_row_def row_put_def)

lemma mapRowToSchema_example:
  "mapRowToSchema [''VoterId'' \<mapsto> ''V7'', ''FirstName'' \<mapsto> b] (Some [(''VoterId'', ''stateVoterId'')]) ty
     = Inr (Some [(''stateVoterId'', JString ''V7'')])"
  "mapRowToSchema [''VoterId'' \<mapsto> [], ''FirstName'' \<mapsto> b] (Some [(''VoterId'', ''stateVoterId'')]) ty
     = Inr None"
  by (simp_all add: mapRowToSchema_def map_entry_def cell_present_def get_property_def
      type_conversion_def assign_def)

lemma file_rows_example:
  "file_rows (''VoterId,FirstName'' @ [LF] @ ''V7,Al'' @ [LF] @ '',Bo'' @ [LF])
     = [[''VoterId'' \<mapsto> ''V7'', ''FirstName'' \<mapsto> ''Al''], [''VoterId'' \<mapsto> [], ''FirstName'' \<mapsto> ''Bo'']]"
  "file_rows (''VoterId,FirstName'' @ [LF] @ '',Bo'' @ [LF])
     = [[''VoterId'' \<mapsto> [], ''FirstName'' \<mapsto> ''Bo'']]"
  unfolding file_rows_def split_on_example
  by (simp_all add: trim_example parseCSVLine_example build_row_example)

lemma row_outcome_example:
  "row_mapped (Some [(''VoterId'', ''stateVoterId'')]) ty [''VoterId'' \<mapsto> ''V7'', ''FirstName'' \<mapsto> b]"
  "row_null (Some [(''VoterId'', ''stateVoterId'')]) ty [''VoterId'' \<mapsto> [], ''FirstName'' \<mapsto> b]"
  "\<not> row_mapped (Some [(''VoterId'', ''stateVoterId'')]) ty [''VoterId'' \<mapsto> [], ''FirstName'' \<mapsto> b]"
  "\<not> row_null (Some [(''VoterId'', ''stateVoterId'')]) ty [''VoterId'' \<mapsto> ''V7'', ''FirstName'' \<mapsto> b]"
  by (simp_all add: row_mapped_def row_null_def row_throws_def mapRowToSchema_example)

lemma after_end_example:
  "completed_job (after_end (insert_batch ''voters'' 1) (Some [(''VoterId'', ''stateVoterId'')]) ''voters''
      [''VoterId,FirstName'' @ [LF] @ ''V7,Al'' @ [LF] @ '',Bo'' @ [LF]] empty_database)
     = \<lparr>job_status = ''completed'', job_totalRows = 2, job_processedRows = 2, job_successRows = 0,
        job_errorRows = 1, job_errors = []\<rparr>"
  "db (after_end (insert_batch ''voters'' 1) (Some [(''VoterId'', ''stateVoterId'')]) ''voters''
      [''VoterId,FirstName'' @ [LF] @ ''V7,Al'' @ [LF] @ '',Bo'' @ [LF]] empty_database)
     = empty_database"
  "completed_job (after_end (insert_batch ''voters'' 1) (Some [(''VoterId'', ''stateVoterId'')]) ''voters''
      [''VoterId,FirstName'' @ [LF] @ '',Bo'' @ [LF]] empty_database)
     = \<lparr>job_status = ''completed'', job_totalRows = 1, job_processedRows = 1, job_successRows = 0,
        job_errorRows = 0, job_errors = []\<rparr>"
  "db (after_end (insert_batch ''voters'' 1) (Some [(''VoterId'', ''stateVoterId'')]) ''voters''
      [''VoterId,FirstName'' @ [LF] @ '',Bo'' @ [LF]] empty_database)
     = empty_database"
  unfolding after_end_def before_end_eq concat.simps append_Nil2 split_on_example
  by (simp_all add: process_line_def trim_example parseCSVLine_example build_row_example
      data_map_row_def mapRowToSchema_example data_insert_batch_def BATCH_SIZE_def initial_state_def
      end_remaining_buffer_def end_final_batch_def insert_batch_def insertVoterBatch_def
      voters_unique_indexes_def completed_job_def Let_def)

lemma upload_job_example:
  "upload_job (insert_batch ''voters'' 1) (Some [(''VoterId'', ''stateVoterId'')]) ''voters''
      [''VoterId,FirstName'' @ [LF] @ ''V7,Al'' @ [LF] @ '',Bo'' @ [LF]] empty_database
     = Some (\<lparr>job_status = ''completed'', job_totalRows = 2, job_processedRows = 2, job_successRows = 0,
              job_errorRows = 1, job_errors = []\<rparr>, empty_database)"
  "upload_job (insert_batch ''voters'' 1) (Some [(''VoterId'', ''stateVoterId'')]) ''voters''
      [''VoterId,FirstName'' @ [LF] @ '',Bo'' @ [LF]] empty_database
     = Some (\<lparr>job_status = ''completed'', job_totalRows = 1, job_processedRows = 1, job_successRows = 0,
              job_errorRows = 0, job_errors = []\<rparr>, empty_database)"
proof -
  let ?cm = "Some [(''VoterId'', ''stateVoterId'')]"
  have "length (filter (row_mapped ?cm ''voters'')
      (file_rows (concat [''VoterId,FirstName'' @ [LF] @ ''V7,Al'' @ [LF] @ '',Bo'' @ [LF]]))) < BATCH_SIZE"
    by (simp only: concat.simps append_Nil2 file_rows_example)
       (simp add: row_outcome_example BATCH_SIZE_def)
  then show "upload_job (insert_batch ''voters'' 1) ?cm ''voters''
      [''VoterId,FirstName'' @ [LF] @ ''V7,Al'' @ [LF] @ '',Bo'' @ [LF]] empty_database
     = Some (\<lparr>job_status = ''completed'', job_totalRows = 2, job_processedRows = 2, job_successRows = 0,
              job_errorRows = 1, job_errors = []\<rparr>, empty_database)"
    by (simp only: upload_job_few after_end_example)
  have "length (filter (row_mapped ?cm ''voters'')
      (file_rows (concat [''VoterId,FirstName'' @ [LF] @ '',Bo'' @ [LF]]))) < BATCH_SIZE"
    by (simp only: concat.simps append_Nil2 file_rows_example)
       (simp add: row_outcome_example BATCH_SIZE_def)
  then show "upload_job (insert_batch ''voters'' 1) ?cm ''voters''
      [''VoterId,FirstName'' @ [LF] @ '',Bo'' @ [LF]] empty_database
     = Some (\<lparr>job_status = ''completed'', job_totalRows = 1, job_processedRows = 1, job_successRows = 0,
              job_errorRows = 0, job_errors = []\<rparr>, empty_database)"
    by (simp only: upload_job_few after_end_example)
qed

theorem upload_job_counters_witness:
  "upload_job (insert_batch ''voters'' 1) (Some [(''VoterId'', ''stateVoterId'')]) ''voters''
      [''VoterId,FirstName'' @ [LF] @ ''V7,Al'' @ [LF] @ '',Bo'' @ [LF]] empty_database
     = Some (\<lparr>job_status = ''completed'', job_totalRows = 2, job_processedRows = 2, job_successRows = 0,
              job_errorRows = 1, job_errors = []\<rparr>, empty_database) \<and>
   length (file_rows (concat [''VoterId,FirstName'' @ [LF] @ ''V7,Al'' @ [LF] @ '',Bo'' @ [LF]])) = 2 \<and>
   length (filter (\<lambda>r. \<not> row_null (Some [(''VoterId'', ''stateVoterId'')]) ''voters'' r)
             (file_rows (concat [''VoterId,FirstName'' @ [LF] @ ''V7,Al'' @ [LF] @ '',Bo'' @ [LF]]))) = 1 \<and>
   length (filter (row_mapped (Some [(''VoterId'', ''stateVoterId'')]) ''voters'')
             (file_rows (concat [''VoterId,FirstName'' @ [LF] @ ''V7,Al'' @ [LF] @ '',Bo'' @ [LF]])))
     < BATCH_SIZE \<and>
   upload_job (insert_batch ''voters'' 1) (Some [(''VoterId'', ''stateVoterId'')]) ''voters''
      [''VoterId,FirstName'' @ [LF] @ ''V7,Al'' @ [LF] @ '',Bo'' @ [LF]] empty_database \<noteq> None"
  using upload_job_counters [of "insert_batch ''voters'' 1" "Some [(''VoterId'', ''stateVoterId'')]"
      "''voters''" "[''VoterId,FirstName'' @ [LF] @ ''V7,Al'' @ [LF] @ '',Bo'' @ [LF]]" empty_database
      "\<lparr>job_status = ''completed'', job_totalRows = 2, job_processedRows = 2, job_successRows = 0,
        job_errorRows = 1, job_errors = []\<rparr>" empty_database]
  by (simp only: concat.simps append_Nil2 upload_job_example file_rows_example)
     (simp add: row_outcome_example BATCH_SIZE_def)

text \<open>
  The claim of C4 as stated fails. The file \<open>VoterId,FirstName\<close>, \<open>,Bo\<close> uploaded with the
  mapping \<open>{VoterId: stateVoterId}\<close> has one data row, whose only mapped cell is empty: the
  job is completed with the row processed, and it is counted neither as a success nor as an
  error.
\<close>

theorem upload_job_counters_counterexample:
  "upload 1 ''voters'' (Some [(''VoterId'', ''stateVoterId'')])
      [''VoterId,FirstName'' @ [LF] @ '',Bo'' @ [LF]] empty_database
     = Some (\<lparr>job_status = ''completed'', job_totalRows = 1, job_processedRows = 1, job_successRows = 0,
              job_errorRows = 0, job_errors = []\<rparr>, empty_database) \<and>
   job_successRows (fst (the (upload 1 ''voters'' (Some [(''VoterId'', ''stateVoterId'')])
      [''VoterId,FirstName'' @ [LF] @ '',Bo'' @ [LF]] empty_database)))
   + job_errorRows (fst (the (upload 1 ''voters'' (Some [(''VoterId'', ''stateVoterId'')])
      [''VoterId,FirstName'' @ [LF] @ '',Bo'' @ [LF]] empty_database)))
   \<noteq> job_processedRows (fst (the (upload 1 ''voters'' (Some [(''VoterId'', ''stateVoterId'')])
      [''VoterId,FirstName'' @ [LF] @ '',Bo'' @ [LF]] empty_database)))"
  by (simp only: upload_def upload_job_example) simp









section \<open>Properties of the list route\<close>


lemma member_key_new_members:
  "map member_key (new_members listId userId ids) = map (Pair listId) ids"
  by (simp add: new_members_def member_key_def comp_def)

lemma insert_members_ok:
  assumes "distinct (map member_key (voterListMembers d) @ map (Pair listId) ids)"
  shows "insert_members listId userId ids d
     = Some (d\<lparr>voterListMembers := voterListMembers d @ new_members listId userId ids\<rparr>)"
proof -
  have "distinct (map member_key (voterListMembers d @ new_members listId userId ids))"
    using assms by (simp only: map_append member_key_new_members)
  then show ?thesis
    by (simp add: insert_members_def Let_def new_members_def [symmetric] del: distinct_append map_append)
qed

lemma populate_loop_ok:
  "distinct (map member_key (voterListMembers d) @ map (Pair listId) ids) \<Longrightarrow>
   populate_loop listId userId ids added d
     = (Some (added + length ids),
        d\<lparr>voterListMembers := voterListMembers d @ new_members listId userId ids\<rparr>)"
proof (induction listId userId ids added d rule: populate_loop.induct)
  case (1 listId userId ids added d)
  show ?case
  proof (cases "ids = []")
    case True
    then show ?thesis by (simp add: populate_loop.simps new_members_def)
  next
    case False
    let ?b = "take batchSize ids" and ?r = "drop batchSize ids"
    let ?d' = "d\<lparr>voterListMembers := voterListMembers d @ new_members listId userId ?b\<rparr>"
    have split: "map (Pair listId) ids = map (Pair listId) ?b @ map (Pair listId) ?r"
      by (simp flip: map_append)
    have dist: "distinct (map member_key (voterListMembers d) @ map (Pair listId) ?b @ map (Pair listId) ?r)"
      using "1.prems" by (simp only: split)
    then have "distinct (map member_key (voterListMembers d) @ map (Pair listId) ?b)"
      by auto
    then have ins: "insert_members listId userId ?b d = Some ?d'"
      by (rule insert_members_ok)
    have "distinct (map member_key (voterListMembers ?d') @ map (Pair listId) ?r)"
      using dist by (simp add: member_key_new_members)
    then have "populate_loop listId userId ?r (added + length ?b) ?d'
        = (Some (added + length ?b + length ?r),
           ?d'\<lparr>voterListMembers := voterListMembers ?d' @ new_members listId userId ?r\<rparr>)"
      using "1.IH" [OF False ins] by simp
    moreover have "new_members listId userId ?b @ new_members listId userId ?r = new_members listId userId ids"
      by (simp add: new_members_def flip: map_append)
    moreover have "length ?b + length ?r = length ids"
      by simp
    ultimately show ?thesis
      using False ins by (subst populate_loop.simps) (simp add: add.assoc)
  qed
qed


lemma distinct_matchingVoters:
  "distinct (map voter_id (voters d)) \<Longrightarrow> distinct (matchingVoters organizationId c d)"
  by (simp add: matchingVoters_def distinct_map_filter)

lemma populate_ok:
  assumes uk: "unique_keys d"
    and found: "find (\<lambda>l. list_id l = listId \<and> list_organizationId l = organizationId) (voterLists d) = Some lst"
  shows "populate listId (Some c) organizationId userId d =
     (Ok (length (matchingVoters organizationId c d)),
      d\<lparr>voterListMembers :=
           filter (\<lambda>m. member_listId m \<noteq> listId) (voterListMembers d)
           @ new_members listId userId (matchingVoters organizationId c d),
        voterLists :=
           map (\<lambda>l. if list_id l = listId then l\<lparr>filterCriteria := Some c\<rparr> else l) (voterLists d)\<rparr>)"
proof -
  let ?M = "matchingVoters organizationId c d"
  let ?d1 = "d\<lparr>voterListMembers := filter (\<lambda>m. member_listId m \<noteq> listId) (voterListMembers d)\<rparr>"
  have "distinct ?M"
    using uk by (simp add: unique_keys_def distinct_matchingVoters)
  then have a: "distinct (map (Pair listId) ?M)"
    by (simp add: distinct_map inj_on_def)
  have b: "distinct (map member_key (filter (\<lambda>m. member_listId m \<noteq> listId) (voterListMembers d)))"
    using uk by (simp add: unique_keys_def distinct_map_filter)
  have c: "set (map member_key (filter (\<lambda>m. member_listId m \<noteq> listId) (voterListMembers d)))
      \<inter> set (map (Pair listId) ?M) = {}"
    by (auto simp add: member_key_def)
  have "distinct (map member_key (filter (\<lambda>m. member_listId m \<noteq> listId) (voterListMembers d))
      @ map (Pair listId) ?M)"
    by (intro distinct_append [THEN iffD2] conjI a b c)
  then have "distinct (map member_key (voterListMembers ?d1) @ map (Pair listId) ?M)"
    by (simp del: distinct_append)
  then have "populate_loop listId userId ?M 0 ?d1
      = (Some (0 + length ?M), ?d1\<lparr>voterListMembers := voterListMembers ?d1 @ new_members listId userId ?M\<rparr>)"
    by (rule populate_loop_ok)
  then show ?thesis
    using found by (simp add: populate_def Let_def)
qed

lemma list_members_after:
  "list_members listId
     (d\<lparr>voterListMembers := filter (\<lambda>m. member_listId m \<noteq> listId) ms @ new_members listId userId ids,
        voterLists := ls\<rparr>) = ids"
proof -
  have "filter (\<lambda>m. member_listId m = listId) (filter (\<lambda>m. member_listId m \<noteq> listId) ms) = []"
    by (simp add: filter_empty_conv)
  moreover have "filter (\<lambda>m. member_listId m = listId) (new_members listId userId ids)
      = new_members listId userId ids"
    by (simp add: new_members_def filter_map comp_def)
  moreover have "map member_voterId (new_members listId userId ids) = ids"
    by (simp add: new_members_def comp_def)
  ultimately show ?thesis by (simp add: list_members_def)
qed

lemma unique_keys_after:
  assumes "unique_keys d" and "distinct ids"
  shows "unique_keys
     (d\<lparr>voterListMembers := filter (\<lambda>m. member_listId m \<noteq> listId) (voterListMembers d)
                              @ new_members listId userId ids,
        voterLists := ls\<rparr>)"
proof -
  have a: "distinct (map (Pair listId) ids)"
    using assms(2) by (simp add: distinct_map inj_on_def)
  have b: "distinct (map member_key (filter (\<lambda>m. member_listId m \<noteq> listId) (voterListMembers d)))"
    using assms(1) by (simp add: unique_keys_def distinct_map_filter)
  have c: "set (map member_key (filter (\<lambda>m. member_listId m \<noteq> listId) (voterListMembers d)))
      \<inter> set (map (Pair listId) ids) = {}"
    by (auto simp add: member_key_def)
  have "distinct (map member_key (filter (\<lambda>m. member_listId m \<noteq> listId) (voterListMembers d))
      @ map (Pair listId) ids)"
    by (intro distinct_append [THEN iffD2] conjI a b c)
  then show ?thesis
    using assms(1) by (simp add: unique_keys_def member_key_new_members del: distinct_append)
qed

lemma find_after:
  "find (\<lambda>l. list_id l = listId \<and> list_organizationId l = organizationId)
     (map (\<lambda>l. if list_id l = listId then l\<lparr>filterCriteria := x\<rparr> else l) ls)
   = map_option (\<lambda>l. if list_id l = listId then l\<lparr>filterCriteria := x\<rparr> else l)
       (find (\<lambda>l. list_id l = listId \<and> list_organizationId l = organizationId) ls)"
  by (induction ls) auto

lemma stored_criteria_after:
  assumes "find (\<lambda>l. list_id l = listId \<and> list_organizationId l = organizationId) ls \<noteq> None"
  shows "set (stored_criteria listId
     (d\<lparr>voterListMembers := ms,
        voterLists := map (\<lambda>l. if list_id l = listId then l\<lparr>filterCriteria := Some c\<rparr> else l) ls\<rparr>))
   = {Some c}"
proof -
  let ?f = "\<lambda>l. if list_id l = listId then l\<lparr>filterCriteria := Some c\<rparr> else l"
  have eq: "stored_criteria listId (d\<lparr>voterListMembers := ms, voterLists := map ?f ls\<rparr>)
      = map (\<lambda>l. Some c) (filter (\<lambda>l. list_id l = listId) ls)"
    by (induction ls) (simp_all add: stored_criteria_def)
  from assms obtain l where "l \<in> set ls" "list_id l = listId"
    by (auto simp add: find_None_iff)
  then have "filter (\<lambda>l. list_id l = listId) ls \<noteq> []"
    by (auto simp add: filter_empty_conv)
  then show ?thesis
    unfolding eq by (cases "filter (\<lambda>l. list_id l = listId) ls") auto
qed


lemma populate_conditions_tenant:
  "and_conditions (populate_conditions organizationId c) v \<Longrightarrow> voter_organizationId v = organizationId"
  by (simp add: and_conditions_def populate_conditions_def)

lemma matchingVoters_member:
  assumes "distinct (map voter_id (voters d))" and "v \<in> set (voters d)"
  shows "voter_id v \<in> set (matchingVoters organizationId c d)
     \<longleftrightarrow> and_conditions (populate_conditions organizationId c) v"
proof
  assume "voter_id v \<in> set (matchingVoters organizationId c d)"
  then obtain w where w: "w \<in> set (voters d)" "and_conditions (populate_conditions organizationId c) w"
      "voter_id w = voter_id v"
    by (auto simp add: matchingVoters_def)
  then have "w = v"
    using assms by (meson distinct_map inj_onD)
  then show "and_conditions (populate_conditions organizationId c) v" using w by simp
next
  assume "and_conditions (populate_conditions organizationId c) v"
  then show "voter_id v \<in> set (matchingVoters organizationId c d)"
    using assms(2) by (auto simp add: matchingVoters_def)
qed

text \<open>
  C5. In a database that satisfies its keys, for every list of the requesting organization
  and every two criteria \<open>c1\<close> and \<open>c2\<close>: populating the list with \<open>c1\<close> and then with \<open>c2\<close>
  succeeds both times, and afterwards the members of the list are exactly the voters of the
  organization that match \<open>c2\<close> (in the order of the \<open>voters\<close> table, none twice): the
  earlier members, whether from \<open>c1\<close> or added by hand, are deleted first, the matching set
  is inserted in batches, the response carries its size, and \<open>c2\<close> is the list's stored
  criteria. The \<open>voters\<close> table is not changed.
\<close>

theorem populate_replaces_membership:
  assumes "unique_keys d"
    and "find (\<lambda>l. list_id l = listId \<and> list_organizationId l = organizationId) (voterLists d) \<noteq> None"
  shows "let r1 = populate listId (Some c1) organizationId userId d;
             r2 = populate listId (Some c2) organizationId userId (snd r1)
         in fst r1 = Ok (length (matchingVoters organizationId c1 d)) \<and>
            fst r2 = Ok (length (matchingVoters organizationId c2 d)) \<and>
            list_members listId (snd r2) = matchingVoters organizationId c2 d \<and>
            (\<forall>v\<in>set (voters d).
               voter_id v \<in> set (list_members listId (snd r2))
               \<longleftrightarrow> voter_organizationId v = organizationId
                   \<and> and_conditions (populate_conditions organizationId c2) v) \<and>
            set (stored_criteria listId (snd r2)) = {Some c2} \<and>
            voters (snd r2) = voters d"
proof -
  let ?P = "\<lambda>l. list_id l = listId \<and> list_organizationId l = organizationId"
  let ?f = "\<lambda>c l. if list_id l = listId then l\<lparr>filterCriteria := Some c\<rparr> else l"
  let ?keep = "\<lambda>d. filter (\<lambda>m. member_listId m \<noteq> listId) (voterListMembers d)"
  let ?M1 = "matchingVoters organizationId c1 d"
  let ?d1 = "d\<lparr>voterListMembers := ?keep d @ new_members listId userId ?M1,
               voterLists := map (?f c1) (voterLists d)\<rparr>"
  from assms(2) obtain lst where found: "find ?P (voterLists d) = Some lst" by auto
  have r1: "populate listId (Some c1) organizationId userId d = (Ok (length ?M1), ?d1)"
    using assms(1) found by (rule populate_ok)
  have uk1: "unique_keys ?d1"
    using assms(1) by (intro unique_keys_after) (simp_all add: unique_keys_def distinct_matchingVoters)
  have found1: "find ?P (voterLists ?d1) = Some (?f c1 lst)"
    by (simp add: find_after found)
  have same: "matchingVoters organizationId c2 ?d1 = matchingVoters organizationId c2 d"
    by (simp add: matchingVoters_def)
  let ?M2 = "matchingVoters organizationId c2 d"
  let ?d2 = "?d1\<lparr>voterListMembers := ?keep ?d1 @ new_members listId userId ?M2,
                 voterLists := map (?f c2) (voterLists ?d1)\<rparr>"
  have r2: "populate listId (Some c2) organizationId userId ?d1 = (Ok (length ?M2), ?d2)"
    using populate_ok [OF uk1 found1, of c2 userId] by (simp only: same)
  have members: "list_members listId ?d2 = ?M2"
    by (rule list_members_after)
  have "find ?P (map (?f c1) (voterLists d)) \<noteq> None"
    by (simp add: find_after found)
  then have "set (stored_criteria listId
      (?d1\<lparr>voterListMembers := ?keep ?d1 @ new_members listId userId ?M2,
           voterLists := map (?f c2) (map (?f c1) (voterLists d))\<rparr>)) = {Some c2}"
    by (rule stored_criteria_after)
  then have crit: "set (stored_criteria listId ?d2) = {Some c2}"
    by simp
  have iff: "\<forall>v\<in>set (voters d). voter_id v \<in> set ?M2
      \<longleftrightarrow> voter_organizationId v = organizationId \<and> and_conditions (populate_conditions organizationId c2) v"
    using assms(1) matchingVoters_member [of d _ organizationId c2] populate_conditions_tenant
    by (auto simp add: unique_keys_def)
  show ?thesis
    unfolding Let_def r1 snd_conv fst_conv r2
    using members crit iff by simp
qed

lemma example_matching:
  "matchingVoters 1 (city_criteria ''B'') example_database = [2]"
  by (simp add: matchingVoters_def example_database_def example_voter_def city_criteria_def
      populate_conditions_def and_conditions_def has_items_def inArray_def)

theorem populate_replaces_membership_witness:
  "unique_keys example_database \<and>
   find (\<lambda>l. list_id l = 7 \<and> list_organizationId l = 1) (voterLists example_database) \<noteq> None \<and>
   list_members 7
     (snd (populate 7 (Some (city_criteria ''B'')) 1 9
        (snd (populate 7 (Some (city_criteria ''A'')) 1 9 example_database)))) = [2] \<and>
   fst (populate 7 (Some (city_criteria ''B'')) 1 9
        (snd (populate 7 (Some (city_criteria ''A'')) 1 9 example_database))) = Ok 1"
proof -
  have h1: "unique_keys example_database"
    by (simp add: unique_keys_def example_database_def example_voter_def member_key_def)
  have h2: "find (\<lambda>l. list_id l = 7 \<and> list_organizationId l = 1) (voterLists example_database) \<noteq> None"
    by (simp add: example_database_def)
  show ?thesis
    using populate_replaces_membership [OF h1 h2, of "city_criteria ''A''" 9 "city_criteria ''B''"] h1 h2
    unfolding Let_def example_matching by simp
qed


section \<open>Properties of the batch writers\<close>

text \<open>
  With the indexes of \<open>shared/schema.ts\<close> the statement of \<open>insertVoterBatch\<close> is rejected
  for every batch: the upload route writes no voter, and each batch of a voter import is
  counted in \<open>errorRows\<close>.
\<close>

lemma insertVoterBatch_rejected:
  "insertVoterBatch rows organizationId d = (Some Statement_failed, d)"
  by (simp add: insertVoterBatch_def voters_unique_indexes_def)

text \<open>
  C3 fails on the code. \<open>insertElectionBatch\<close> is run twice with the same record (voter
  \<open>V2\<close> of organization 1, election date 2020-11-03) on the example database: afterwards
  \<open>election_history\<close> holds two rows for that voter and date. The same happens when the
  record occurs twice in one batch. \<open>onConflictDoNothing()\<close> can only skip a row that
  violates a unique index, and \<open>election_history\<close> has none on the voter and the date.
\<close>

theorem insertElectionBatch_duplicate:
  "map (\<lambda>e. (election_voterId e, electionDate e))
     (electionHistory (snd (insertElectionBatch
        [[(''stateVoterId'', JString ''V2''), (''electionDate'', JString ''2020-11-03'')]] 1
        (snd (insertElectionBatch
           [[(''stateVoterId'', JString ''V2''), (''electionDate'', JString ''2020-11-03'')]] 1
           example_database)))))
     = [(2, ''2020-11-03''), (2, ''2020-11-03'')] \<and>
   map (\<lambda>e. (election_voterId e, electionDate e))
     (electionHistory (snd (insertElectionBatch
        [[(''stateVoterId'', JString ''V2''), (''electionDate'', JString ''2020-11-03'')],
         [(''stateVoterId'', JString ''V2''), (''electionDate'', JString ''2020-11-03'')]] 1
        example_database)))
     = [(2, ''2020-11-03''), (2, ''2020-11-03'')]"
  by (simp add: example_database_def example_voter_def truthy_def obj_get_def column_text_def
      insert_electionHistory_def Let_def election_conflict_def electionHistory_unique_indexes_def
      election_column_def varchar_opt_def)


text \<open>
  A voter file with the rows \<open>V7\<close> and \<open>V8\<close> under the header \<open>VoterId\<close>, sent as one chunk
  with the mapping \<open>{VoterId: stateVoterId}\<close>.
\<close>

lemma split_on_voters: "split_on LF (''VoterId'' @ [LF] @ ''V7'' @ [LF] @ ''V8'' @ [LF]) = [''VoterId'', ''V7'', ''V8'', []]"
  by simp

lemma trim_voters:
  "trim ''VoterId'' = ''VoterId''" "trim ''V7'' = ''V7''" "trim ''V8'' = ''V8''" "trim [] = []"
  by (simp_all add: trim_def is_ws_def)

lemma parseCSVLine_voters:
  "parseCSVLine ''VoterId'' = [''VoterId'']" "parseCSVLine ''V7'' = [''V7'']" "parseCSVLine ''V8'' = [''V8'']"
  by (simp_all add: parseCSVLine_def trim_def is_ws_def)

lemma build_row_voters: "build_row [''VoterId''] [a] = [''VoterId'' \<mapsto> a]"
  by (simp add: build_row_def row_put_def)

lemma mapRowToSchema_voters:
  "a \<noteq> [] \<Longrightarrow>
   mapRowToSchema [''VoterId'' \<mapsto> a] (Some [(''VoterId'', ''stateVoterId'')]) ty
     = Inr (Some [(''stateVoterId'', JString a)])"
  by (simp add: mapRowToSchema_def map_entry_def cell_present_def get_property_def
      type_conversion_def assign_def)

lemma file_rows_voters:
  "file_rows (''VoterId'' @ [LF] @ ''V7'' @ [LF] @ ''V8'' @ [LF])
     = [[''VoterId'' \<mapsto> ''V7''], [''VoterId'' \<mapsto> ''V8'']]"
  unfolding file_rows_def split_on_voters
  by (simp add: trim_voters parseCSVLine_voters build_row_voters)

lemma after_end_voters:
  "completed_job (after_end (insert_batch ''voters'' 1) (Some [(''VoterId'', ''stateVoterId'')]) ''voters''
      [''VoterId'' @ [LF] @ ''V7'' @ [LF] @ ''V8'' @ [LF]] empty_database)
     = \<lparr>job_status = ''completed'', job_totalRows = 2, job_processedRows = 2, job_successRows = 0,
        job_errorRows = 2, job_errors = []\<rparr>"
  "db (after_end (insert_batch ''voters'' 1) (Some [(''VoterId'', ''stateVoterId'')]) ''voters''
      [''VoterId'' @ [LF] @ ''V7'' @ [LF] @ ''V8'' @ [LF]] empty_database)
     = empty_database"
  unfolding after_end_def before_end_eq concat.simps append_Nil2 split_on_voters
  by (simp_all add: process_line_def trim_voters parseCSVLine_voters build_row_voters
      data_map_row_def mapRowToSchema_voters data_insert_batch_def BATCH_SIZE_def initial_state_def
      end_remaining_buffer_def end_final_batch_def insert_batch_def insertVoterBatch_def
      voters_unique_indexes_def completed_job_def Let_def)

lemma upload_job_voters:
  "upload_job (insert_batch ''voters'' 1) (Some [(''VoterId'', ''stateVoterId'')]) ''voters''
      [''VoterId'' @ [LF] @ ''V7'' @ [LF] @ ''V8'' @ [LF]] empty_database
     = Some (\<lparr>job_status = ''completed'', job_totalRows = 2, job_processedRows = 2, job_successRows = 0,
              job_errorRows = 2, job_errors = []\<rparr>, empty_database)"
proof -
  have "length (filter (row_mapped (Some [(''VoterId'', ''stateVoterId'')]) ''voters'')
      (file_rows (concat [''VoterId'' @ [LF] @ ''V7'' @ [LF] @ ''V8'' @ [LF]]))) < BATCH_SIZE"
    by (simp only: concat.simps append_Nil2 file_rows_voters) (simp add: BATCH_SIZE_def)
  then show ?thesis
    by (simp only: upload_job_few after_end_voters)
qed

text \<open>
  C2 fails on the upload route. \<open>insertVoterBatch\<close> names the organization and the state
  voter id as its conflict target, and \<open>shared/schema.ts\<close> declares no unique index on these
  columns (\<open>voters_state_id_idx\<close> is a plain index), so PostgreSQL rejects the statement for
  every batch and the database stays as it was. Organization 1, which has no voters,
  uploads the file above: the job is completed with no row imported and both rows counted
  as errors, and \<open>voters\<close> is still empty. A second upload of the file meets the same
  database and ends in the same way.
\<close>

theorem insertVoterBatch_reimport:
  "insertVoterBatch rows organizationId d = (Some Statement_failed, d) \<and>
   upload 1 ''voters'' (Some [(''VoterId'', ''stateVoterId'')])
      [''VoterId'' @ [LF] @ ''V7'' @ [LF] @ ''V8'' @ [LF]] empty_database
     = Some (\<lparr>job_status = ''completed'', job_totalRows = 2, job_processedRows = 2, job_successRows = 0,
              job_errorRows = 2, job_errors = []\<rparr>, empty_database) \<and>
   voters (snd (the (upload 1 ''voters'' (Some [(''VoterId'', ''stateVoterId'')])
      [''VoterId'' @ [LF] @ ''V7'' @ [LF] @ ''V8'' @ [LF]] empty_database))) = []"
  by (simp only: insertVoterBatch_rejected upload_def upload_job_voters) (simp add: empty_database_def)


section \<open>Properties of the import script\<close>

lemmas script_line_defs =
  line_voter_def script_headers_def script_values_def parseCSVLine_script_def script_row_def
  script_row_put_def build_voter_def cell_or_def strip_quotes_def trim_def is_ws_def

lemma example_headers:
  "script_headers ''VoterId,LastName'' = [''VoterId'', ''LastName'']"
  "script_headers ''VoterId,State'' = [''VoterId'', ''State'']"
  by (simp_all add: script_line_defs)

lemma example_line_voters:
  "line_voter ''5'' orgId [''VoterId'', ''LastName''] ''V1,Ng'' =
     \<lparr>vr_stateVoterId = ''V1'', vr_organizationId = orgId, vr_firstName = None, vr_middleName = None,
      vr_lastName = Some ''Ng'', vr_city = None, vr_state = ''MN'', vr_zipCode = None,
      vr_precinctName = None, vr_congressionalDistrict = ''5'', vr_stateSenateDistrict = None\<rparr>"
  "line_voter ''5'' orgId [''VoterId'', ''State''] ''V7,Minnesota'' =
     \<lparr>vr_stateVoterId = ''V7'', vr_organizationId = orgId, vr_firstName = None, vr_middleName = None,
      vr_lastName = None, vr_city = None, vr_state = ''Minnesota'', vr_zipCode = None,
      vr_precinctName = None, vr_congressionalDistrict = ''5'', vr_stateSenateDistrict = None\<rparr>"
  "line_voter ''5'' orgId [''VoterId'', ''State''] ''V8,MN'' =
     \<lparr>vr_stateVoterId = ''V8'', vr_organizationId = orgId, vr_firstName = None, vr_middleName = None,
      vr_lastName = None, vr_city = None, vr_state = ''MN'', vr_zipCode = None,
      vr_precinctName = None, vr_congressionalDistrict = ''5'', vr_stateSenateDistrict = None\<rparr>"
  by (simp_all add: script_line_defs)

lemma store_record_fits:
  "length (vr_stateVoterId v) \<le> 50 \<Longrightarrow> vr_firstName v = None \<Longrightarrow> vr_middleName v = None \<Longrightarrow>
   length (the (vr_lastName v)) \<le> 100 \<Longrightarrow> vr_city v = None \<Longrightarrow> length (vr_state v) \<le> 2 \<Longrightarrow>
   vr_zipCode v = None \<Longrightarrow> vr_precinctName v = None \<Longrightarrow> length (vr_congressionalDistrict v) \<le> 10 \<Longrightarrow>
   vr_stateSenateDistrict v = None \<Longrightarrow> store_record v = Some v"
  by (cases "vr_lastName v") (simp_all add: store_record_def varchar_def varchar_opt_def)

lemma store_record_state:
  "length (vr_stateVoterId v) \<le> 50 \<Longrightarrow> vr_firstName v = None \<Longrightarrow> vr_middleName v = None \<Longrightarrow>
   vr_lastName v = None \<Longrightarrow> vr_city v = None \<Longrightarrow> vr_state v = ''Minnesota'' \<Longrightarrow>
   store_record v = None"
  by (simp add: store_record_def varchar_def varchar_opt_def)

text \<open>
  The \<open>catch\<close> of \<open>processBatch\<close> at work. Organization 1 imports a file with the rows
  \<open>V7,Minnesota\<close> and \<open>V8,MN\<close> under the headers \<open>VoterId\<close> and \<open>State\<close>. The column \<open>state\<close> is
  a \<open>varchar(2)\<close>: the insert of the first row throws, the second row is not written, and
  both rows are counted as errors.
\<close>

lemma processBatch_catch_example:
  "importDistrict ''5'' 1 (Some [''VoterId,State'', ''V7,Minnesota'', ''V8,MN'']) example_database
     = (\<lparr>totalRows = 2, imported = 0, updated = 0, skipped = 0, stats_errors = 2, electionRecords = 0\<rparr>,
        example_database)"
  by (simp add: importDistrict_def example_headers import_line_def example_line_voters Let_def
      BATCH_SIZE_def processBatch_def process_voter_def store_record_state zero_stats_def
      example_database_def example_voter_def)

text \<open>
  C1 fails on the import script. Organization 2 imports a file with one row for the state
  voter id \<open>V1\<close>. The lookup of \<open>processBatch\<close> compares the state voter id only; it finds
  voter 1, which belongs to organization 1, and the update, whose values include the
  organization of the import, rewrites that row: organization 1 loses the voter to
  organization 2, and the voter of organization 2 with the same id is left as it was.
\<close>

theorem processBatch_crosses_organizations:
  "map (\<lambda>old. (voter_id old, voter_organizationId old, stateVoterId old, lastName old))
     (voters example_database)
     = [(1, 1, Some ''V1'', None), (2, 1, Some ''V2'', None), (3, 2, Some ''V1'', None)] \<and>
   map (\<lambda>old. (voter_id old, voter_organizationId old, stateVoterId old, lastName old))
     (voters (snd (importDistrict ''5'' 2 (Some [''VoterId,LastName'', ''V1,Ng'']) example_database)))
     = [(1, 2, Some ''V1'', Some ''Ng''), (2, 1, Some ''V2'', None), (3, 2, Some ''V1'', None)] \<and>
   updated (fst (importDistrict ''5'' 2 (Some [''VoterId,LastName'', ''V1,Ng'']) example_database)) = 1"
  by (simp add: importDistrict_def example_headers import_line_def example_line_voters Let_def
      BATCH_SIZE_def processBatch_def process_voter_def store_record_fits zero_stats_def
      example_database_def example_voter_def update_voter_def set_column_def)


end
